theory Spec2Isabelle
  imports
    Complex_Main
    "HOL-Library.Multiset"
    "HOL-Library.Char_ord"
    "HOL-Library.List_Lexorder"
    "HOL-Library.Product_Lexorder"
begin

section \<open>Values\<close>

text \<open>
  The pipeline (scripts/compute_asi.py) works on pandas columns of floats in which NaN
  marks a missing value. A cell is modelled as \<open>real option\<close>: \<open>None\<close> is NaN, and
  \<open>Some x\<close> is the number \<open>x\<close>.

  The numbers of the program are doubles. The normalizer decides on a computed number
  (\<open>sd > 0\<close>), so its statistics are computed as the program computes them: every
  operation gives the double nearest to the exact result, \<open>fl\<close> of it, with a tie going
  to the even significand of 53 bits. \<open>fl\<close> covers the normal range of doubles; overflow
  to an infinity and subnormal numbers are outside the model. The weighted average of the
  composite score is taken in exact arithmetic.
\<close>

definition round_half_even :: "real \<Rightarrow> int" where
  "round_half_even y =
     (let f = \<lfloor>y\<rfloor>; d = y - of_int f
      in if d < 1 / 2 then f else if 1 / 2 < d then f + 1 else if even f then f else f + 1)"

definition fl :: "real \<Rightarrow> real" where
  "fl x =
     (if x = 0 then 0
      else (let e = \<lfloor>log 2 \<bar>x\<bar>\<rfloor> - 52
            in of_int (round_half_even (x / 2 powr of_int e)) * 2 powr of_int e))"

definition notna :: "real option \<Rightarrow> bool" where
  "notna v = (v \<noteq> None)"

definition fillna :: "real \<Rightarrow> real option \<Rightarrow> real" where
  "fillna d v = (case v of None \<Rightarrow> d | Some x \<Rightarrow> x)"

definition neg :: "real option \<Rightarrow> real option" where
  \<comment> \<open>unary minus on a column cell: NaN stays NaN\<close>
  "neg v = map_option uminus v"

section \<open>Constants of compute\_asi.py\<close>

definition W_TWSA :: real where "W_TWSA = 4 / 10"
definition W_SM :: real where "W_SM = 4 / 10"
definition W_RAIN :: real where "W_RAIN = 2 / 10"
definition ALERT_T :: real where "ALERT_T = - 1"
definition WATCH_T :: real where "WATCH_T = - (1 / 2)"

section \<open>Classifier\<close>

text \<open>
  \<^verbatim>\<open>
  def _classify(asi):
      if pd.isna(asi): return "no-data"
      if asi <= ALERT_T: return "alert"
      if asi <= WATCH_T: return "watch"
      return "normal"
  \<close>
\<close>

fun classify :: "real option \<Rightarrow> string" where
  "classify None = ''no-data''"
| "classify (Some a) =
     (if a \<le> ALERT_T then ''alert'' else if a \<le> WATCH_T then ''watch'' else ''normal'')"

text \<open>
  The severity order of the labels, as the specification reads them: alert is the most
  severe tier, then watch, then normal. It is used only to state monotonicity.
\<close>

definition severity :: "string \<Rightarrow> nat" where
  "severity l = (if l = ''alert'' then 2 else if l = ''watch'' then 1 else 0)"

section \<open>Composite score\<close>

text \<open>
  \<^verbatim>\<open>
  w = np.array([W_TWSA, W_SM, W_RAIN])
  mask = comp.notna().to_numpy()
  num  = (comp.fillna(0.0).to_numpy() * w).sum(axis=1)
  den  = (mask * w).sum(axis=1)
  asi  = np.divide(num, den, out=np.full_like(num, np.nan, dtype=float), where=den>0)
  \<close>
  One row of \<open>comp\<close> is the list of its three cells, in the column order
  twsa\_z, sm\_z, rain\_z.
\<close>

definition weights :: "real list" where
  "weights = [W_TWSA, W_SM, W_RAIN]"

definition mask :: "real option \<Rightarrow> real" where
  \<comment> \<open>a boolean of the mask, as the number numpy multiplies with\<close>
  "mask v = (if notna v then 1 else 0)"

definition asi_num :: "real option list \<Rightarrow> real" where
  "asi_num zs = sum_list (map2 (\<lambda>v w. fillna 0 v * w) zs weights)"

definition asi_den :: "real option list \<Rightarrow> real" where
  "asi_den zs = sum_list (map2 (\<lambda>v w. mask v * w) zs weights)"

definition asi_row :: "real option list \<Rightarrow> real option" where
  "asi_row zs =
     (let num = asi_num zs; den = asi_den zs
      in if den > 0 then Some (num / den) else None)"

text \<open>
  The weighted average of the specification, written from its words: the sum of
  weight times score over the non-missing scores, divided by the sum of their weights;
  missing when no score is available.
\<close>

definition available :: "(real \<times> real option) list \<Rightarrow> (real \<times> real) list" where
  "available ws = List.map_filter (\<lambda>(w, v). map_option (Pair w) v) ws"

definition weighted_average :: "(real \<times> real option) list \<Rightarrow> real option" where
  "weighted_average ws =
     (let av = available ws
      in if av = [] then None
         else Some (sum_list (map (\<lambda>(w, x). w * x) av) / sum_list (map fst av)))"

text \<open>
  The effective weight of each component of a row: its nominal weight where the score is
  present and nothing where it is missing, divided by the denominator the code uses.
\<close>

definition effective_weights :: "real option list \<Rightarrow> real list" where
  "effective_weights zs = map2 (\<lambda>v w. mask v * w / asi_den zs) zs weights"

section \<open>Normalizer\<close>

text \<open>
  \<^verbatim>\<open>
  def _z_by_basin(df, col):
      def z(s):
          sd = s.std(ddof=0)
          return (s - s.mean())/sd if (sd is not None and sd > 0) \
                 else pd.Series([np.nan]*len(s), index=s.index)
      return df.groupby("basin_id")[col].transform(z)
  \<close>
  A pandas Series is the list of its cells. \<open>Series.mean\<close> and \<open>Series.std\<close> skip
  NaN; over no value at all both are NaN. pandas computes them in two passes
  (\<open>nanops.nanmean\<close>, \<open>nanops.nanvar\<close>):
  \<^verbatim>\<open>
  avg = values.sum() / count
  sqr = (avg - values) ** 2
  var = sqr.sum() / (count - ddof)         # ddof = 0
  std = np.sqrt(var)
  \<close>
  Each operation is a double operation. The sums are taken from left to right, which is
  the order numpy follows for an array of fewer than 8 values; for a longer array numpy
  adds in blocks, and the last bits of its sum can differ from the sum taken here.
  A comparison with NaN is false.
\<close>

definition dropna :: "real option list \<Rightarrow> real list" where
  "dropna s = List.map_filter (\<lambda>v. v) s"

definition fsum :: "real list \<Rightarrow> real" where
  "fsum xs = foldl (\<lambda>a x. fl (a + x)) 0 xs"

definition mean :: "real list \<Rightarrow> real option" where
  "mean xs = (if xs = [] then None else Some (fl (fsum xs / real (length xs))))"

definition var0 :: "real list \<Rightarrow> real option" where
  "var0 xs =
     (case mean xs of
        None \<Rightarrow> None
      | Some avg \<Rightarrow>
          Some (fl (fsum (map (\<lambda>x. fl (fl (avg - x) * fl (avg - x))) xs) / real (length xs))))"

definition std0 :: "real list \<Rightarrow> real option" where
  "std0 xs = map_option (\<lambda>v. fl (sqrt v)) (var0 xs)"

definition gt0 :: "real option \<Rightarrow> bool" where
  "gt0 v = (case v of None \<Rightarrow> False | Some x \<Rightarrow> x > 0)"

definition nan_sub :: "real option \<Rightarrow> real option \<Rightarrow> real option" where
  "nan_sub a b = (case (a, b) of (Some x, Some y) \<Rightarrow> Some (fl (x - y)) | _ \<Rightarrow> None)"

definition nan_div :: "real option \<Rightarrow> real option \<Rightarrow> real option" where
  "nan_div a b = (case (a, b) of (Some x, Some y) \<Rightarrow> Some (fl (x / y)) | _ \<Rightarrow> None)"

definition z :: "real option list \<Rightarrow> real option list" where
  "z s =
     (let sd = std0 (dropna s)
      in if gt0 sd then map (\<lambda>v. nan_div (nan_sub v (mean (dropna s))) sd) s
         else map (\<lambda>_. None) s)"

text \<open>
  \<open>groupby("basin_id")[col].transform(z)\<close> takes the two columns basin\_id and
  \<open>col\<close> of the frame, here a list of pairs. It applies \<open>z\<close> to the cells of each
  basin, in row order, and puts every result back at the row it came from: row \<open>i\<close>
  receives the cell of its own group at the rank that row has inside the group.
\<close>

definition group_of :: "string \<Rightarrow> (string \<times> real option) list \<Rightarrow> real option list" where
  "group_of b col = map snd (filter (\<lambda>r. fst r = b) col)"

definition rank_in_group :: "nat \<Rightarrow> (string \<times> real option) list \<Rightarrow> nat" where
  "rank_in_group i col = length (filter (\<lambda>r. fst r = fst (col ! i)) (take i col))"

definition z_by_basin :: "(string \<times> real option) list \<Rightarrow> real option list" where
  "z_by_basin col =
     map (\<lambda>i. z (group_of (fst (col ! i)) col) ! rank_in_group i col) [0..<length col]"


section \<open>The wide table\<close>

text \<open>
  \<open>main\<close> of compute\_asi.py reads up to three sources and outer-merges them on
  (basin\_id, date) into one frame \<open>df\<close>; when no source is usable it stops with
  \<open>SystemExit\<close> before any step below. The model starts at that frame. basin\_id is a
  string (\<open>astype(str)\<close>); date is a month-start timestamp, a number of months here,
  or NaT (\<open>None\<close>) where the source's date could not be parsed. The frame has the
  column twsa, sm, rain or rain\_def only when its source was usable: \<open>has_twsa\<close>,
  \<open>has_sm\<close> and \<open>rain_col\<close> say so, and the fields of a column that the frame does
  not have are never read.
\<close>

type_synonym month = int

datatype rain_kind = Rain | RainDef

record raw_row =
  basin_id :: string
  date :: "month option"
  twsa :: "real option"
  sm :: "real option"
  rain :: "real option"
  rain_def :: "real option"

record frame =
  has_twsa :: bool
  has_sm :: bool
  rain_col :: "rain_kind option"
  rows :: "raw_row list"

record scored_row = raw_row +
  twsa_z :: "real option"
  sm_z :: "real option"
  rain_z :: "real option"
  rain_def_z :: "real option"
  asi :: "real option"
  cls :: string

definition column :: "(raw_row \<Rightarrow> real option) \<Rightarrow> raw_row list \<Rightarrow> (string \<times> real option) list" where
  "column c rs = map (\<lambda>r. (basin_id r, c r)) rs"

definition nan_col :: "nat \<Rightarrow> real option list" where
  "nan_col n = replicate n None"

text \<open>
  \<^verbatim>\<open>
  for c in ["twsa","sm"]:
      if c in df.columns:
          df[f"{c}_z"] = _z_by_basin(df, c)
      else:
          df[f"{c}_z"] = np.nan
  \<close>
\<close>

definition twsa_z_col :: "frame \<Rightarrow> real option list" where
  "twsa_z_col df =
     (if has_twsa df then z_by_basin (column twsa (rows df)) else nan_col (length (rows df)))"

definition sm_z_col :: "frame \<Rightarrow> real option list" where
  "sm_z_col df =
     (if has_sm df then z_by_basin (column sm (rows df)) else nan_col (length (rows df)))"

text \<open>
  \<^verbatim>\<open>
  if rain_col == "rain":
      df["rain_z"] = _z_by_basin(df, "rain")
      df["rain_def_z"] = -df["rain_z"]
  elif rain_col == "rain_def":
      df["rain_def_z"] = _z_by_basin(df, "rain_def")
      df["rain_z"] = -df["rain_def_z"]
  else:
      df["rain_z"] = np.nan
      df["rain_def_z"] = np.nan
  \<close>
  The result is the pair of columns (rain\_z, rain\_def\_z).
\<close>

definition rain_z_cols :: "frame \<Rightarrow> real option list \<times> real option list" where
  "rain_z_cols df =
     (case rain_col df of
        Some Rain \<Rightarrow>
          (let rz = z_by_basin (column rain (rows df)) in (rz, map neg rz))
      | Some RainDef \<Rightarrow>
          (let rdz = z_by_basin (column rain_def (rows df)) in (map neg rdz, rdz))
      | None \<Rightarrow> (nan_col (length (rows df)), nan_col (length (rows df))))"

text \<open>
  The scored frame: the z-score columns, then asi from the row (twsa\_z, sm\_z, rain\_z)
  and class from asi. A column of \<open>out_cols\<close> that the frame does not have is written
  as NaN (\<open>if c not in df.columns: df[c] = np.nan\<close>).
\<close>

definition score_row :: "frame \<Rightarrow> nat \<Rightarrow> scored_row" where
  "score_row df i =
     (let r = rows df ! i;
          tz = twsa_z_col df ! i; sz = sm_z_col df ! i;
          rz = fst (rain_z_cols df) ! i; rdz = snd (rain_z_cols df) ! i;
          a = asi_row [tz, sz, rz]
      in \<lparr> basin_id = basin_id r, date = date r,
           twsa = (if has_twsa df then twsa r else None),
           sm = (if has_sm df then sm r else None),
           rain = (if rain_col df = Some Rain then rain r else None),
           rain_def = (if rain_col df = Some RainDef then rain_def r else None),
           twsa_z = tz, sm_z = sz, rain_z = rz, rain_def_z = rdz,
           asi = a, cls = classify a \<rparr>)"

definition score :: "frame \<Rightarrow> scored_row list" where
  "score df = map (score_row df) [0..<length (rows df)]"

text \<open>
  \<open>df.sort_values(["basin_id","date"])\<close>: ascending by basin\_id, then by date, with
  NaT after every date (\<open>na_position="last"\<close>). Strings compare character by
  character.
\<close>

definition date_key :: "month option \<Rightarrow> bool \<times> month" where
  "date_key d = (case d of None \<Rightarrow> (True, 0) | Some m \<Rightarrow> (False, m))"

definition sort_values :: "scored_row list \<Rightarrow> scored_row list" where
  "sort_values t = sort_key (\<lambda>r. (basin_id r, date_key (date r))) t"

definition asi_table :: "frame \<Rightarrow> scored_row list" where
  \<comment> \<open>the rows of \<open>df_out\<close>, which \<open>to_csv\<close> writes to asi\_table.csv\<close>
  "asi_table df = sort_values (score df)"


section \<open>Coverage selector\<close>

text \<open>
  \<^verbatim>\<open>
  df_out["date_dt"] = pd.to_datetime(df_out["date"], errors="coerce")
  cov = (df_out.assign(asi_ok=df_out["asi"].notna())
               .groupby("date_dt")["asi_ok"].sum().sort_index())
  latest_dt = cov[cov > 0].index.max() if (cov > 0).any() else df_out["date_dt"].max()
  \<close>
  \<open>groupby\<close> leaves out the rows whose key is NaT, and \<open>max\<close> skips NaT; the maximum
  of no date is NaT. \<open>cov\<close> is the list of (month, number of rows of that month whose
  asi is not missing), in ascending order of month.
\<close>

definition months_of :: "scored_row list \<Rightarrow> month list" where
  "months_of t = List.map_filter date t"

definition cov :: "scored_row list \<Rightarrow> (month \<times> nat) list" where
  "cov t =
     map (\<lambda>d. (d, length (filter (\<lambda>r. date r = Some d \<and> notna (asi r)) t)))
       (sort (remdups (months_of t)))"

definition index_max :: "month list \<Rightarrow> month option" where
  "index_max ds = (case ds of [] \<Rightarrow> None | d # ds' \<Rightarrow> Some (fold max ds' d))"

definition latest_dt :: "scored_row list \<Rightarrow> month option" where
  "latest_dt t =
     (let pos = filter (\<lambda>(d, k). k > 0) (cov t)
      in if pos \<noteq> [] then index_max (map fst pos) else index_max (months_of t))"

section \<open>The persisted table\<close>

text \<open>
  \<open>df_out.to_csv(TABLE_OUT, index=False)\<close> writes one line per row. A field of the
  file is modelled by what its text is to a reader of the table:
  \<^item> \<open>Empty\<close> is the empty field, which \<open>to_csv\<close> writes for NaN;
  \<^item> \<open>Num x\<close> is a text that \<open>float\<close> reads as the finite number \<open>x\<close>: the
    number read, not the decimal written (\<open>to_csv\<close> writes a number as the shortest
    text that reads back as the same number, and no \<open>float_format\<close> is given);
  \<^item> \<open>NumNF p\<close> is a text that \<open>float\<close> reads as an infinity or as NaN and that
    is not the plain word nan (inf, -inf, Infinity, +nan);
  \<^item> \<open>Text s\<close> is any other text \<open>s\<close>: after \<open>strip().lower()\<close> it is empty or
    one of the words none and nan, or \<open>float\<close> rejects it.
  The date field is the month whose first day \<open>strftime("%Y-%m-%d")\<close> prints, or empty
  for NaT.
\<close>

datatype nonfinite = PosInf | NegInf | NaN

datatype field = Empty | Num real | NumNF nonfinite | Text string

definition to_field :: "real option \<Rightarrow> field" where
  "to_field v = (case v of None \<Rightarrow> Empty | Some x \<Rightarrow> Num x)"

record csv_row =
  c_basin_id :: string
  c_date :: "month option"
  c_twsa :: field
  c_sm :: field
  c_rain :: field
  c_rain_def :: field
  c_twsa_z :: field
  c_sm_z :: field
  c_rain_z :: field
  c_rain_def_z :: field
  c_asi :: field
  c_class :: string

definition to_csv_row :: "scored_row \<Rightarrow> csv_row" where
  "to_csv_row r =
     \<lparr> c_basin_id = basin_id r, c_date = date r,
       c_twsa = to_field (twsa r), c_sm = to_field (sm r),
       c_rain = to_field (rain r), c_rain_def = to_field (rain_def r),
       c_twsa_z = to_field (twsa_z r), c_sm_z = to_field (sm_z r),
       c_rain_z = to_field (rain_z r), c_rain_def_z = to_field (rain_def_z r),
       c_asi = to_field (asi r), c_class = cls r \<rparr>"

definition to_csv :: "scored_row list \<Rightarrow> csv_row list" where
  "to_csv t = map to_csv_row t"

definition numeric_values :: "scored_row \<Rightarrow> real option list" where
  "numeric_values r =
     [twsa r, sm r, rain r, rain_def r, twsa_z r, sm_z r, rain_z r, rain_def_z r, asi r]"

definition numeric_fields :: "csv_row \<Rightarrow> field list" where
  "numeric_fields c =
     [c_twsa c, c_sm c, c_rain c, c_rain_def c, c_twsa_z c, c_sm_z c, c_rain_z c,
      c_rain_def_z c, c_asi c]"

section \<open>Rounding\<close>

text \<open>
  Python's \<open>round(x, 3)\<close> gives the multiple of 0.001 nearest to \<open>x\<close>, and the even
  one of the two when \<open>x\<close> is exactly half way.
  \<^verbatim>\<open>
  def _r(x, nd=3):                      # scripts/compute_asi.py
      try: return None if pd.isna(x) else round(float(x), nd)
      except: return None
  \<close>
\<close>

definition round3 :: "real \<Rightarrow> real" where
  "round3 x = of_int (round_half_even (x * 1000)) / 1000"

fun compute_asi_r :: "real option \<Rightarrow> real option" where
  "compute_asi_r None = None"
| "compute_asi_r (Some x) = Some (round3 x)"

text \<open>
  That a field is rounded to 3 decimals: rounding it again changes nothing.
\<close>

definition rounded3 :: "field \<Rightarrow> bool" where
  "rounded3 f = (case f of Num x \<Rightarrow> round3 x = x | _ \<Rightarrow> True)"

section \<open>The latest snapshot\<close>

text \<open>
  A feature of a GeoJSON feature collection, reduced to what the programs read and write:
  the feature's own id and the properties basin\_id, name, date, the four standard scores,
  asi and class. A property that is absent or null is \<open>None\<close>; a score is \<open>Some\<close>
  exactly when it is a (finite) number. The geometry is passed through and is left out.
  An id, the feature's own or the property basin\_id, is a JSON string or a JSON number,
  taken to be an integer.
\<close>

datatype idval = IdStr string | IdNum int

record feature =
  f_id :: "idval option"
  p_basin_id :: "idval option"
  p_name :: "string option"
  p_date :: "month option"
  p_twsa_z :: "real option"
  p_sm_z :: "real option"
  p_rain_z :: "real option"
  p_rain_def_z :: "real option"
  p_asi :: "real option"
  p_class :: "string option"

text \<open>
  \<open>str\<close> of an id: a string is itself, an integer is written in decimal digits, and
  an absent property (\<open>p.get("basin_id")\<close> is None) gives the word None.
\<close>

fun str_nat :: "nat \<Rightarrow> string" where
  "str_nat n =
     (if n < 10 then [''0123456789'' ! n]
      else str_nat (n div 10) @ [''0123456789'' ! (n mod 10)])"

declare str_nat.simps [simp del]

definition str_int :: "int \<Rightarrow> string" where
  "str_int i = (if i < 0 then CHR ''-'' # str_nat (nat (- i)) else str_nat (nat i))"

definition py_str :: "idval option \<Rightarrow> string" where
  "py_str v =
     (case v of None \<Rightarrow> ''None'' | Some (IdStr s) \<Rightarrow> s | Some (IdNum i) \<Rightarrow> str_int i)"

text \<open>
  \<open>a or b\<close> gives \<open>b\<close> when \<open>a\<close> is falsy: None, the empty string, the number 0.
\<close>

definition truthy_id :: "idval \<Rightarrow> bool" where
  "truthy_id v = (case v of IdStr s \<Rightarrow> s \<noteq> [] | IdNum i \<Rightarrow> i \<noteq> 0)"

definition id_or :: "idval option \<Rightarrow> idval option \<Rightarrow> idval option" where
  "id_or a b = (case a of None \<Rightarrow> b | Some v \<Rightarrow> if truthy_id v then a else b)"

definition py_or :: "string option \<Rightarrow> string option \<Rightarrow> string option" where
  "py_or a b = (case a of None \<Rightarrow> b | Some s \<Rightarrow> if s = [] then b else a)"

text \<open>
  \<^verbatim>\<open>
  latest = df_out[df_out["date_dt"] == latest_dt].copy()
  latest_str = latest_dt.strftime("%Y-%m-%d") if pd.notna(latest_dt) else None
  gj = json.loads(BASINS_GJ.read_text(encoding="utf-8"))
  by_id = {str(r["basin_id"]): r for r in latest.to_dict(orient="records")}
  for f in gj.get("features", []):
      p = f.setdefault("properties", {})
      bid = str(p.get("basin_id"))
      row = by_id.get(bid)
      if row:
          p.update({
              "date": row["date"],
              "twsa_z": _r(row["twsa_z"]), "sm_z": _r(row["sm_z"]),
              "rain_z": _r(row["rain_z"]), "rain_def_z": _r(row["rain_def_z"]),
              "asi": _r(row["asi"]), "class": row["class"],
              "name": p.get("name") or str(bid)
          })
      else:
          p.update({"date": latest_str, "twsa_z": None, "sm_z": None,
                    "rain_z": None, "rain_def_z": None, "asi": None, "class": "no-data"})
  \<close>
  No date equals NaT, so without a latest month no row is selected. In the dictionary
  \<open>by_id\<close> a later row of the same basin replaces an earlier one.
\<close>

definition latest_rows :: "scored_row list \<Rightarrow> scored_row list" where
  "latest_rows t =
     (case latest_dt t of None \<Rightarrow> [] | Some m \<Rightarrow> filter (\<lambda>r. date r = Some m) t)"

definition by_id :: "scored_row list \<Rightarrow> string \<Rightarrow> scored_row option" where
  "by_id latest bid = find (\<lambda>r. basin_id r = bid) (rev latest)"

definition latest_feature :: "scored_row list \<Rightarrow> month option \<Rightarrow> feature \<Rightarrow> feature" where
  "latest_feature latest latest_str f =
     (let bid = py_str (p_basin_id f)
      in case by_id latest bid of
           Some row \<Rightarrow>
             f\<lparr> p_date := date row,
                p_twsa_z := compute_asi_r (twsa_z row), p_sm_z := compute_asi_r (sm_z row),
                p_rain_z := compute_asi_r (rain_z row),
                p_rain_def_z := compute_asi_r (rain_def_z row),
                p_asi := compute_asi_r (asi row), p_class := Some (cls row),
                p_name := py_or (p_name f) (Some bid) \<rparr>
         | None \<Rightarrow>
             f\<lparr> p_date := latest_str, p_twsa_z := None, p_sm_z := None, p_rain_z := None,
                p_rain_def_z := None, p_asi := None, p_class := Some ''no-data'' \<rparr>)"

definition latest_snapshot :: "feature list \<Rightarrow> scored_row list \<Rightarrow> feature list" where
  \<comment> \<open>the features written to asi\_latest.geojson, from those of basins.geojson\<close>
  "latest_snapshot gj t = map (latest_feature (latest_rows t) (latest_dt t)) gj"

text \<open>
  That a score of a feature is rounded to 3 decimals, or null.
\<close>

definition null_or_rounded3 :: "real option \<Rightarrow> bool" where
  "null_or_rounded3 v = (case v of None \<Rightarrow> True | Some x \<Rightarrow> round3 x = x)"

section \<open>Query layer (app/main.py)\<close>

text \<open>
  \<^verbatim>\<open>
  def _r(x, nd=3):
      try:
          if x is None:
              return None
          if isinstance(x, str) and x.strip().lower() in {"", "none", "nan"}:
              return None
          return round(float(x), nd)
      except Exception:
          return None
  \<close>
  What \<open>_r\<close> returns is None or a Python float, finite or not. On a field of the
  table: the empty field and the words none and nan give None; a text that \<open>float\<close>
  reads is rounded, and \<open>round\<close> leaves an infinity and NaN as they are; for any other
  text \<open>float\<close> raises and the handler returns None.
\<close>

datatype pyfloat = Finite real | NonFinite nonfinite

fun main_r :: "field \<Rightarrow> pyfloat option" where
  "main_r Empty = None"
| "main_r (Num x) = Some (Finite (round3 x))"
| "main_r (NumNF p) = Some (NonFinite p)"
| "main_r (Text s) = None"

datatype http_error = HTTPException nat string

record hist_entry =
  h_date :: "month option"
  h_twsa_z :: "pyfloat option"
  h_sm_z :: "pyfloat option"
  h_rain_z :: "pyfloat option"
  h_rain_def_z :: "pyfloat option"
  h_asi :: "pyfloat option"
  h_class :: string

definition hist_of :: "csv_row \<Rightarrow> hist_entry" where
  "hist_of row =
     \<lparr> h_date = c_date row,
       h_twsa_z = main_r (c_twsa_z row), h_sm_z = main_r (c_sm_z row),
       h_rain_z = main_r (c_rain_z row), h_rain_def_z = main_r (c_rain_def_z row),
       h_asi = main_r (c_asi row), h_class = c_class row \<rparr>"

text \<open>
  \<^verbatim>\<open>
  def asi_history(basin_id: str):
      if not ASI_TABLE.exists():
          raise HTTPException(404, detail="asi_table.csv not found. Run scripts/compute_asi.py")
      out = []
      with ASI_TABLE.open("r", encoding="utf-8", newline="") as fh:
          rdr = csv.DictReader(fh)
          for row in rdr:
              if str(row.get("basin_id")) == str(basin_id):
                  out.append({...})
      if not out:
          raise HTTPException(404, detail=f"No history for basin_id={basin_id}")
      return out
  \<close>
  The table file is \<open>None\<close> when it does not exist, and otherwise the list of its rows
  in file order.
\<close>

definition asi_history :: "csv_row list option \<Rightarrow> string \<Rightarrow> http_error + hist_entry list" where
  "asi_history tbl b =
     (case tbl of
        None \<Rightarrow> Inl (HTTPException 404 ''asi_table.csv not found. Run scripts/compute_asi.py'')
      | Some rs \<Rightarrow>
          (let out = map hist_of (filter (\<lambda>row. c_basin_id row = b) rs)
           in if out = [] then Inl (HTTPException 404 (''No history for basin_id='' @ b))
              else Inr out))"


section \<open>Ranking\<close>

text \<open>
  The ranking reads, of a feature, its id and the properties basin\_id, name, asi, class
  and date; a feature enters it when its asi is a number
  (\<open>isinstance(asi, (int, float))\<close>).
\<close>

record rank_row =
  rr_basin_id :: "idval option"
  rr_name :: "string option"
  rr_asi :: real
  rr_class :: "string option"
  rr_date :: "month option"

text \<open>
  \<open>classes.split(",")\<close> and \<open>c.strip()\<close>. A character is a code point below 256.
  The whitespace that \<open>strip\<close> removes is, among these, the space, the control
  characters 9 to 13 and 28 to 31, the next-line character 133 and the no-break space
  160.
\<close>

fun split_on :: "char \<Rightarrow> string \<Rightarrow> string list" where
  "split_on d [] = [[]]"
| "split_on d (c # cs) =
     (if c = d then [] # split_on d cs
      else (case split_on d cs of [] \<Rightarrow> [[c]] | w # ws \<Rightarrow> (c # w) # ws))"

definition is_space :: "char \<Rightarrow> bool" where
  "is_space c = (of_char c \<in> {9, 10, 11, 12, 13, 28, 29, 30, 31, 32, 133, 160 :: nat})"

definition strip :: "string \<Rightarrow> string" where
  "strip s = rev (dropWhile is_space (rev (dropWhile is_space s)))"

definition wanted_of :: "string \<Rightarrow> string list" where
  \<comment> \<open>the members of the set \<open>wanted\<close>\<close>
  "wanted_of classes = filter (\<lambda>c. c \<noteq> []) (map strip (split_on CHR '','' classes))"

text \<open>
  \<^verbatim>\<open>
  def asi_top10(limit: int = 10, classes: str = "alert,watch", date: str | None = None):
      wanted = {c.strip() for c in classes.split(",") if c.strip()}
      gj = geojson_for_date(date) if date else latest_geojson()
      rows = []
      for f in gj.get("features", []):
          p = f.get("properties", {}) or {}
          asi = p.get("asi")
          if isinstance(asi, (int, float)):
              rows.append({
                  "basin_id": p.get("basin_id") or f.get("id"),
                  "name": p.get("name"),
                  "asi": _r(asi),
                  "class": p.get("class"),
                  "date": p.get("date"),
              })
      if wanted:
          rows = [r for r in rows if r["class"] in wanted]
      rows.sort(key=lambda r: r["asi"])
      return rows[:max(0, int(limit))]
  \<close>
  An argument that the caller leaves out is \<open>None\<close> and takes its default. The snapshot
  \<open>gj\<close> is what \<open>geojson_for_date(date)\<close> or \<open>latest_geojson()\<close> gave: the error it
  raised, or the list of its features. On a number \<open>_r\<close> is the rounding to 3
  decimals. \<open>list.sort\<close> is stable.
\<close>

definition top10_row :: "feature \<Rightarrow> real \<Rightarrow> rank_row" where
  "top10_row f a =
     \<lparr> rr_basin_id = id_or (p_basin_id f) (f_id f), rr_name = p_name f,
       rr_asi = round3 a, rr_class = p_class f, rr_date = p_date f \<rparr>"

definition top10_rows :: "feature list \<Rightarrow> rank_row list" where
  "top10_rows fs = List.map_filter (\<lambda>f. map_option (top10_row f) (p_asi f)) fs"

definition in_wanted :: "string list \<Rightarrow> rank_row \<Rightarrow> bool" where
  "in_wanted wanted r = (case rr_class r of None \<Rightarrow> False | Some c \<Rightarrow> c \<in> set wanted)"

definition asi_top10 ::
  "int option \<Rightarrow> string option \<Rightarrow> http_error + feature list \<Rightarrow> http_error + rank_row list" where
  "asi_top10 limit_arg classes_arg gj =
     (let limit = (case limit_arg of None \<Rightarrow> 10 | Some l \<Rightarrow> l);
          classes = (case classes_arg of None \<Rightarrow> ''alert,watch'' | Some c \<Rightarrow> c);
          wanted = wanted_of classes
      in case gj of
           Inl e \<Rightarrow> Inl e
         | Inr fs \<Rightarrow>
             (let rows = top10_rows fs;
                  rows = (if wanted \<noteq> [] then filter (in_wanted wanted) rows else rows);
                  rows = sort_key rr_asi rows
              in Inr (take (nat (max 0 limit)) rows)))"

section \<open>Concrete inputs\<close>

text \<open>
  The double that the text 0.1 is read as, and a basin whose storage anomaly is 0.1 in
  each of three months.
\<close>

definition tenth :: real where
  "tenth = 3602879701896397 / 2 ^ 55"

definition df2 :: frame where
  "df2 = \<lparr> has_twsa = True, has_sm = False, rain_col = None,
           rows = [\<lparr> basin_id = ''B1'', date = Some 5, twsa = Some tenth, sm = None,
                      rain = None, rain_def = None \<rparr>,
                   \<lparr> basin_id = ''B1'', date = Some 6, twsa = Some tenth, sm = None,
                      rain = None, rain_def = None \<rparr>,
                   \<lparr> basin_id = ''B1'', date = Some 7, twsa = Some tenth, sm = None,
                      rain = None, rain_def = None \<rparr>] \<rparr>"

definition df1 :: frame where
  "df1 = \<lparr> has_twsa = False, has_sm = False, rain_col = Some Rain,
           rows = [\<lparr> basin_id = ''B1'', date = Some 7, twsa = None, sm = None,
                      rain = Some 2, rain_def = None \<rparr>,
                   \<lparr> basin_id = ''B1'', date = Some 6, twsa = None, sm = None,
                      rain = Some 0, rain_def = None \<rparr>] \<rparr>"


definition df5 :: frame where
  "df5 = \<lparr> has_twsa = True, has_sm = False, rain_col = None,
           rows = [\<lparr> basin_id = ''B1'', date = Some 5, twsa = Some 2, sm = None,
                      rain = None, rain_def = None \<rparr>,
                   \<lparr> basin_id = ''B1'', date = Some 7, twsa = None, sm = None,
                      rain = None, rain_def = None \<rparr>,
                   \<lparr> basin_id = ''B1'', date = Some 6, twsa = Some 0, sm = None,
                      rain = None, rain_def = None \<rparr>] \<rparr>"


definition df7 :: frame where
  "df7 = \<lparr> has_twsa = True, has_sm = False, rain_col = Some Rain,
           rows = [\<lparr> basin_id = ''B1'', date = Some 6, twsa = Some 0, sm = None,
                      rain = Some 2, rain_def = None \<rparr>,
                   \<lparr> basin_id = ''B1'', date = Some 7, twsa = Some 2, sm = None,
                      rain = Some 0, rain_def = None \<rparr>] \<rparr>"


definition df8 :: frame where
  "df8 = \<lparr> has_twsa = True, has_sm = False, rain_col = None,
           rows = [\<lparr> basin_id = ''B1'', date = Some 7, twsa = Some 3, sm = None,
                      rain = None, rain_def = None \<rparr>,
                   \<lparr> basin_id = ''B2'', date = Some 6, twsa = Some 1, sm = None,
                      rain = None, rain_def = None \<rparr>,
                   \<lparr> basin_id = ''B1'', date = Some 6, twsa = Some 3, sm = None,
                      rain = None, rain_def = None \<rparr>] \<rparr>"


definition fs0 :: "feature list" where
  "fs0 = [\<lparr> f_id = None, p_basin_id = Some (IdStr ''B1''), p_name = Some ''Ferlo'',
             p_date = Some 7, p_twsa_z = Some (4 / 10), p_sm_z = None, p_rain_z = None,
             p_rain_def_z = None, p_asi = Some (3 / 10), p_class = Some ''normal'' \<rparr>,
          \<lparr> f_id = None, p_basin_id = Some (IdStr ''B2''), p_name = None,
             p_date = Some 7, p_twsa_z = None, p_sm_z = None, p_rain_z = None,
             p_rain_def_z = None, p_asi = None, p_class = Some ''no-data'' \<rparr>,
          \<lparr> f_id = Some (IdStr ''B3''), p_basin_id = Some (IdNum 0), p_name = None,
             p_date = Some 7, p_twsa_z = Some (- (12 / 10)), p_sm_z = None, p_rain_z = None,
             p_rain_def_z = None, p_asi = Some (- (12 / 10)), p_class = Some ''alert'' \<rparr>]"

definition gj0 :: "feature list" where
  \<comment> \<open>two basins of basins.geojson, before any run\<close>
  "gj0 = [\<lparr> f_id = None, p_basin_id = Some (IdStr ''B1''), p_name = None,
             p_date = None, p_twsa_z = None, p_sm_z = None, p_rain_z = None,
             p_rain_def_z = None, p_asi = None, p_class = None \<rparr>,
          \<lparr> f_id = None, p_basin_id = Some (IdStr ''B2''), p_name = Some ''Ferlo'',
             p_date = None, p_twsa_z = None, p_sm_z = None, p_rain_z = None,
             p_rain_def_z = None, p_asi = None, p_class = None \<rparr>]"
section \<open>Rounding to a double: facts\<close>

lemma round_half_even_of_int: "round_half_even (of_int k) = k"
  by (simp add: round_half_even_def)

lemma powr_int_add: "(2::real) powr of_int (a + b) = 2 powr of_int a * 2 powr of_int b"
  by (simp add: powr_add)

lemma powr_52: "(2::real) powr of_int 52 = 2 ^ 52"
  by simp

lemma fl_eval:
  assumes lo: "2 ^ 52 * 2 powr of_int e \<le> \<bar>x\<bar>"
    and hi: "\<bar>x\<bar> < 2 ^ 53 * 2 powr of_int e"
  shows "fl x = of_int (round_half_even (x / 2 powr of_int e)) * 2 powr of_int e"
proof -
  have p: "(0::real) < 2 powr of_int e" by simp
  from lo p have pos: "0 < \<bar>x\<bar>"
    by (smt (verit) mult_pos_pos zero_less_power)
  have a: "(2::real) powr of_int (e + 52) = 2 ^ 52 * 2 powr of_int e"
    by (simp add: powr_add)
  have b: "(2::real) powr (of_int (e + 52) + 1) = 2 ^ 53 * 2 powr of_int e"
    by (simp add: powr_add)
  have "\<lfloor>log 2 \<bar>x\<bar>\<rfloor> = e + 52"
    using floor_log_eq_powr_iff [of "\<bar>x\<bar>" 2 "e + 52"] pos lo hi a b by simp
  with pos show ?thesis by (simp add: fl_def)
qed

lemma shift52: "(2::real) ^ 52 * 2 powr (x - 52) = 2 powr x"
proof -
  have "(2::real) powr x = 2 powr (52 + (x - 52))" by simp
  also have "\<dots> = 2 powr 52 * 2 powr (x - 52)" by (rule powr_add)
  finally show ?thesis by simp
qed

lemma shift53: "(2::real) ^ 53 * 2 powr (x - 52) = 2 powr (x + 1)"
proof -
  have "x + 1 = 53 + (x - 52)" by simp
  then have "(2::real) powr (x + 1) = 2 powr (53 + (x - 52))" by (simp only:)
  also have "\<dots> = 2 powr 53 * 2 powr (x - 52)" by (rule powr_add)
  finally show ?thesis by simp
qed

lemma fl_dyadic:
  assumes k: "\<bar>k\<bar> < 2 ^ 53"
  shows "fl (of_int k * 2 powr of_int i) = of_int k * 2 powr of_int i"
proof (cases "k = 0")
  case True
  then show ?thesis by (simp add: fl_def)
next
  case False
  define a :: real where "a = \<bar>of_int k\<bar>"
  define L where "L = \<lfloor>log 2 a\<rfloor>"
  from False have a1: "1 \<le> a" by (simp add: a_def)
  then have apos: "0 < a" by simp
  from floor_log_eq_powr_iff [of a 2 L] apos
  have lo: "2 powr of_int L \<le> a" and hi: "a < 2 powr (of_int L + 1)"
    by (simp_all add: L_def)
  have L0: "0 \<le> L"
    using a1 by (simp add: L_def)
  have a53: "a < 2 ^ 53"
    using k by (simp add: a_def)
  have L52: "L \<le> 52"
  proof -
    have "log 2 a < 53"
      using a53 apos by (simp add: log_less_iff)
    then show ?thesis by (simp add: L_def floor_le_iff)
  qed
  define e where "e = L + i - 52"
  define n where "n = nat (52 - L)"
  have pe: "(2::real) powr of_int e * 2 ^ n = 2 powr of_int i"
  proof -
    have "(2::real) ^ n = 2 powr of_int (52 - L)"
      using L52 by (simp add: n_def powr_realpow [symmetric])
    then have "(2::real) powr of_int e * 2 ^ n = 2 powr (of_int e + of_int (52 - L))"
      by (simp add: powr_add)
    then show ?thesis by (simp add: e_def)
  qed
  have x: "(of_int k :: real) * 2 powr of_int i = of_int (k * 2 ^ n) * 2 powr of_int e"
    using pe by (simp add: mult.assoc mult.commute)
  have ax: "\<bar>(of_int k :: real) * 2 powr of_int i\<bar> = a * 2 powr of_int i"
    by (simp add: a_def abs_mult)
  have ee: "real_of_int e = (of_int L + of_int i) - 52"
    by (simp add: e_def)
  have e1: "(2::real) ^ 52 * 2 powr of_int e = 2 powr of_int L * 2 powr of_int i"
    unfolding ee shift52 by (rule powr_add)
  have e2: "(2::real) ^ 53 * 2 powr of_int e = 2 powr (of_int L + 1) * 2 powr of_int i"
    unfolding ee shift53 by (simp add: powr_add)
  have c1: "(2::real) ^ 52 * 2 powr of_int e \<le> \<bar>of_int k * 2 powr of_int i\<bar>"
    unfolding ax e1 using lo by (simp add: mult_right_mono)
  have c2: "\<bar>(of_int k :: real) * 2 powr of_int i\<bar> < 2 ^ 53 * 2 powr of_int e"
    unfolding ax e2 using hi by (simp add: mult_strict_right_mono)
  have "(of_int k :: real) * 2 powr of_int i / 2 powr of_int e = of_int (k * 2 ^ n)"
    unfolding x by simp
  with fl_eval [OF c1 c2] show ?thesis
    by (simp only: round_half_even_of_int x [symmetric])
qed

lemma fl_of_int: "\<bar>k\<bar> < 2 ^ 53 \<Longrightarrow> fl (of_int k) = of_int k"
  using fl_dyadic [of k 0] by simp

lemma fl_simps:
  "fl 0 = 0" "fl 1 = 1" "fl (- 1) = - 1"
  "(numeral n :: int) < 2 ^ 53 \<Longrightarrow> fl (numeral n) = numeral n"
  "(numeral n :: int) < 2 ^ 53 \<Longrightarrow> fl (- numeral n) = - numeral n"
  using fl_of_int [of 0] fl_of_int [of 1] fl_of_int [of "- 1"]
    fl_of_int [of "numeral n"] fl_of_int [of "- numeral n"]
  by simp_all

lemma fl_div_pow2: "\<bar>k\<bar> < 2 ^ 53 \<Longrightarrow> fl (of_int k / 2 ^ n) = of_int k / 2 ^ n"
  using fl_dyadic [of k "- int n"] by (simp add: powr_minus powr_realpow divide_inverse)

lemma fl_eval_pow2:
  assumes "2 ^ 52 \<le> \<bar>x\<bar> * 2 ^ n" and "\<bar>x\<bar> * 2 ^ n < 2 ^ 53"
  shows "fl x = of_int (round_half_even (x * 2 ^ n)) / 2 ^ n"
proof -
  have p: "(2::real) powr of_int (- int n) = 1 / 2 ^ n"
    by (simp add: powr_minus powr_realpow divide_inverse)
  from assms have "2 ^ 52 * 2 powr of_int (- int n) \<le> \<bar>x\<bar>"
    and "\<bar>x\<bar> < 2 ^ 53 * 2 powr of_int (- int n)"
    unfolding p by (simp_all add: field_simps)
  from fl_eval [OF this] show ?thesis
    unfolding p by simp
qed

section \<open>Composite score: facts\<close>

lemma asi_row_weighted_average:
  "asi_row [tz, sz, rz] = weighted_average [(W_TWSA, tz), (W_SM, sz), (W_RAIN, rz)]"
  by (cases tz; cases sz; cases rz)
     (simp_all add: asi_row_def asi_num_def asi_den_def weights_def mask_def notna_def
        fillna_def weighted_average_def available_def
        W_TWSA_def W_SM_def W_RAIN_def Let_def)

text \<open>
  C4. Classification is the total threshold function of the composite score: a missing
  score is no-data, a score of at most -1.0 is alert, a score above -1.0 and at most
  -0.5 is watch, a score above -0.5 is normal; the boundaries -1.0 and -0.5 are alert and
  watch; and a larger score never has a more severe label.
\<close>

theorem classify_thresholds:
  "classify None = ''no-data''
   \<and> (\<forall>c. classify (Some c) =
          (if c \<le> - 1 then ''alert'' else if c \<le> - (1 / 2) then ''watch'' else ''normal''))
   \<and> classify (Some (- 1)) = ''alert''
   \<and> classify (Some (- (1 / 2))) = ''watch''
   \<and> (\<forall>c d. c \<le> d \<longrightarrow> severity (classify (Some d)) \<le> severity (classify (Some c)))"
  by (auto simp add: ALERT_T_def WATCH_T_def severity_def)

theorem classify_thresholds_witness:
  "classify None = ''no-data''
   \<and> classify (Some (- (12 / 10))) = ''alert''
   \<and> classify (Some (- (3 / 10))) = ''normal''
   \<and> classify (Some (- 1)) = ''alert''
   \<and> classify (Some (- (1 / 2))) = ''watch''
   \<and> severity (classify (Some (- (3 / 10)))) \<le> severity (classify (Some (- (12 / 10))))"
  using classify_thresholds by (simp add: severity_def)

text \<open>
  C3. When at least one of the three standard scores of a row is present, the effective
  weights sum to 1, each is the nominal weight divided by the sum of the nominal weights
  of the present scores (and nothing for a missing score), and the composite is the sum
  of effective weight times score. When no score is present the composite is missing.
\<close>

theorem asi_effective_weights:
  fixes tz sz rz :: "real option"
  defines "zs \<equiv> [tz, sz, rz]"
  defines "present \<equiv> sum_list (map snd (filter (\<lambda>(v, w). v \<noteq> None) (zip zs weights)))"
  shows "(tz = None \<and> sz = None \<and> rz = None \<longrightarrow> asi_row zs = None)
   \<and> (tz \<noteq> None \<or> sz \<noteq> None \<or> rz \<noteq> None \<longrightarrow>
        sum_list (effective_weights zs) = 1
        \<and> (\<forall>i < 3. effective_weights zs ! i =
              (if zs ! i = None then 0 else weights ! i / present))
        \<and> asi_row zs =
            Some (sum_list (map2 (\<lambda>e v. e * fillna 0 v) (effective_weights zs) zs)))"
  unfolding zs_def present_def
  by (cases tz; cases sz; cases rz)
     (simp_all add: asi_row_def asi_num_def asi_den_def weights_def mask_def notna_def
        fillna_def effective_weights_def W_TWSA_def W_SM_def W_RAIN_def Let_def
        less_Suc_eq numeral_3_eq_3 field_simps)

theorem asi_effective_weights_witness:
  "sum_list (effective_weights [Some 1, Some (- 2), None]) = 1
   \<and> effective_weights [Some 1, Some (- 2), None] = [1 / 2, 1 / 2, 0]
   \<and> asi_row [Some 1, Some (- 2), None] = Some (- (1 / 2))
   \<and> asi_row [None, None, None] = None"
  using asi_effective_weights [of "Some 1" "Some (- 2)" None]
    asi_effective_weights [of None None None]
  by (simp add: weights_def W_TWSA_def W_SM_def W_RAIN_def numeral_3_eq_3 less_Suc_eq
      all_conj_distrib effective_weights_def asi_den_def mask_def notna_def fillna_def)


section \<open>Normalizer: facts\<close>

lemma nth_filter_rank:
  "i < length xs \<Longrightarrow> P (xs ! i) \<Longrightarrow>
     length (filter P (take i xs)) < length (filter P xs)
     \<and> filter P xs ! length (filter P (take i xs)) = xs ! i"
proof (induction xs arbitrary: i)
  case Nil
  then show ?case by simp
next
  case (Cons x xs)
  show ?case
  proof (cases i)
    case 0
    with Cons.prems show ?thesis by simp
  next
    case (Suc k)
    with Cons.prems have "k < length xs" "P (xs ! k)" by simp_all
    from Cons.IH [OF this] show ?thesis using Suc by simp
  qed
qed

lemma z_length [simp]: "length (z s) = length s"
  by (simp add: z_def Let_def)

lemma z_nth:
  "k < length s \<Longrightarrow>
     z s ! k = (if gt0 (std0 (dropna s))
                then nan_div (nan_sub (s ! k) (mean (dropna s))) (std0 (dropna s)) else None)"
  by (simp add: z_def Let_def)

lemma z_by_basin_length [simp]: "length (z_by_basin col) = length col"
  by (simp add: z_by_basin_def)

lemma z_by_basin_nth:
  assumes "i < length col"
  shows "z_by_basin col ! i =
     (let g = dropna (group_of (fst (col ! i)) col)
      in if gt0 (std0 g) then nan_div (nan_sub (snd (col ! i)) (mean g)) (std0 g) else None)"
proof -
  let ?b = "fst (col ! i)"
  let ?P = "\<lambda>r. fst r = ?b"
  from nth_filter_rank [of i col ?P] assms
  have r: "rank_in_group i col < length (filter ?P col)"
    and e: "filter ?P col ! rank_in_group i col = col ! i"
    by (simp_all add: rank_in_group_def)
  from r have r': "rank_in_group i col < length (group_of ?b col)"
    by (simp add: group_of_def)
  from r e have "group_of ?b col ! rank_in_group i col = snd (col ! i)"
    by (simp add: group_of_def)
  with assms r' show ?thesis
    by (simp add: z_by_basin_def z_nth Let_def)
qed

lemma z_by_basin_own_rows:
  assumes "i < length col" and "j < length col'" and "col' ! j = col ! i"
    and "group_of (fst (col ! i)) col' = group_of (fst (col ! i)) col"
  shows "z_by_basin col' ! j = z_by_basin col ! i"
  unfolding z_by_basin_nth [OF assms(1)] z_by_basin_nth [OF assms(2)] assms(3) assms(4) ..

subsection \<open>A constant series\<close>

text \<open>
  The three values 0.1 of one basin, step by step as the doubles compute them: the sum
  0.1 + 0.1 + 0.1 rounds up, so the mean is one unit in the last place above 0.1, every
  deviation is 2^-56 and so is the standard deviation.
\<close>

lemma tenth_sum: "fsum [tenth, tenth, tenth] = 1351079888211149 / 2 ^ 52"
proof -
  have a: "fl tenth = tenth"
    unfolding tenth_def using fl_div_pow2 [of 3602879701896397 55] by simp
  have b: "fl (tenth + tenth) = 3602879701896397 / 2 ^ 54"
    using fl_div_pow2 [of 3602879701896397 54] by (simp add: tenth_def)
  have c: "fl (3602879701896397 / 2 ^ 54 + tenth) = 1351079888211149 / 2 ^ 52"
    using fl_eval_pow2 [of "3602879701896397 / 2 ^ 54 + tenth" 54]
    by (simp add: tenth_def round_half_even_def Let_def)
  show ?thesis
    by (simp only: fsum_def foldl_Cons foldl_Nil add_0 a b c)
qed

lemma tenth_mean: "mean [tenth, tenth, tenth] = Some (7205759403792795 / 2 ^ 56)"
proof -
  have n: "real (length [tenth, tenth, tenth]) = 3" by simp
  have d: "fl (1351079888211149 / 2 ^ 52 / 3) = 7205759403792795 / 2 ^ 56"
    using fl_eval_pow2 [of "1351079888211149 / 2 ^ 52 / 3" 56]
    by (simp add: round_half_even_def Let_def)
  show ?thesis
    by (simp only: mean_def list.distinct if_False tenth_sum n d)
qed

lemma tenth_var: "var0 [tenth, tenth, tenth] = Some (1 / 2 ^ 112)"
proof -
  have n: "real (length [tenth, tenth, tenth]) = 3" by simp
  have e: "fl (7205759403792795 / 2 ^ 56 - tenth) = 1 / 2 ^ 56"
    using fl_div_pow2 [of 1 56] by (simp add: tenth_def)
  have q: "fl (1 / 2 ^ 56 * (1 / 2 ^ 56)) = 1 / 2 ^ 112"
    using fl_div_pow2 [of 1 112] by simp
  have f1: "fl (1 / 2 ^ 112) = 1 / 2 ^ 112"
    using fl_div_pow2 [of 1 112] by simp
  have f2: "fl (1 / 2 ^ 112 + 1 / 2 ^ 112) = 1 / 2 ^ 111"
    using fl_div_pow2 [of 1 111] by simp
  have f3: "fl (1 / 2 ^ 111 + 1 / 2 ^ 112) = 3 / 2 ^ 112"
    using fl_div_pow2 [of 3 112] by simp
  have g: "fl (3 / 2 ^ 112 / 3) = 1 / 2 ^ 112"
    using fl_div_pow2 [of 1 112] by simp
  show ?thesis
    by (simp only: var0_def tenth_mean option.case list.map fsum_def foldl_Cons foldl_Nil
        add_0 e q f1 f2 f3 n g)
qed

lemma sqrt_2_112: "sqrt (1 / 2 ^ 112) = 1 / 2 ^ 56"
  by (rule real_sqrt_unique) (simp_all add: power2_eq_square)

lemma tenth_std: "std0 [tenth, tenth, tenth] = Some (1 / 2 ^ 56)"
proof -
  have h: "fl (1 / 2 ^ 56) = 1 / 2 ^ 56"
    using fl_div_pow2 [of 1 56] by simp
  show ?thesis
    by (simp only: std0_def tenth_var option.map sqrt_2_112 h)
qed

lemma tenth_z:
  "z [Some tenth, Some tenth, Some tenth] = [Some (- 1), Some (- 1), Some (- 1)]"
proof -
  have d: "dropna [Some tenth, Some tenth, Some tenth] = [tenth, tenth, tenth]"
    by (simp add: dropna_def)
  have e: "fl (tenth - 7205759403792795 / 2 ^ 56) = - (1 / 2 ^ 56)"
    using fl_div_pow2 [of "- 1" 56] by (simp add: tenth_def)
  have q: "fl (- (1 / 2 ^ 56) / (1 / 2 ^ 56)) = - 1"
    using fl_simps(3) by simp
  have c: "nan_div (nan_sub (Some tenth) (Some (7205759403792795 / 2 ^ 56)))
      (Some (1 / 2 ^ 56)) = Some (- 1)"
    by (simp only: nan_sub_def nan_div_def prod.case option.case e q)
  have pos: "gt0 (Some (1 / 2 ^ 56))"
    by (simp add: gt0_def)
  show ?thesis
    unfolding z_def d tenth_std tenth_mean Let_def
    by (simp only: pos if_True list.map c)
qed

lemma tenth_z_by_basin:
  "z_by_basin [(''B1'', Some tenth), (''B1'', Some tenth), (''B1'', Some tenth)] =
     [Some (- 1), Some (- 1), Some (- 1)]"
  by (simp add: z_by_basin_def group_of_def rank_in_group_def tenth_z
      upt_rec [of 0] upt_rec [of 1] upt_rec [of 2])

lemma df2_table:
  "asi_table df2 =
     [\<lparr> basin_id = ''B1'', date = Some 5, twsa = Some tenth, sm = None, rain = None,
         rain_def = None, twsa_z = Some (- 1), sm_z = None, rain_z = None,
         rain_def_z = None, asi = Some (- 1), cls = ''alert'' \<rparr>,
      \<lparr> basin_id = ''B1'', date = Some 6, twsa = Some tenth, sm = None, rain = None,
         rain_def = None, twsa_z = Some (- 1), sm_z = None, rain_z = None,
         rain_def_z = None, asi = Some (- 1), cls = ''alert'' \<rparr>,
      \<lparr> basin_id = ''B1'', date = Some 7, twsa = Some tenth, sm = None, rain = None,
         rain_def = None, twsa_z = Some (- 1), sm_z = None, rain_z = None,
         rain_def_z = None, asi = Some (- 1), cls = ''alert'' \<rparr>]"
proof -
  have c: "column twsa (rows df2) =
      [(''B1'', Some tenth), (''B1'', Some tenth), (''B1'', Some tenth)]"
    by (simp add: column_def df2_def)
  have t: "twsa_z_col df2 = [Some (- 1), Some (- 1), Some (- 1)]"
    by (simp add: twsa_z_col_def c tenth_z_by_basin) (simp add: df2_def)
  have s: "sm_z_col df2 = [None, None, None]"
    and r: "rain_z_cols df2 = ([None, None, None], [None, None, None])"
    by (simp_all add: sm_z_col_def rain_z_cols_def nan_col_def df2_def)
  have a: "asi_row [Some (- 1), None, None] = Some (- 1)"
    by (simp add: asi_row_def asi_num_def asi_den_def weights_def mask_def notna_def
        fillna_def W_TWSA_def W_SM_def W_RAIN_def Let_def)
  have n: "length (rows df2) = 3"
    by (simp add: df2_def)
  have u: "[0..<3] = [0, 1, 2 :: nat]"
    by (simp add: upt_rec [of 0] upt_rec [of "Suc 0"] upt_rec [of "Suc (Suc 0)"])
  have sc: "score df2 = map (score_row df2) [0, 1, 2]"
    unfolding score_def n u ..
  have r0: "score_row df2 0 =
      \<lparr> basin_id = ''B1'', date = Some 5, twsa = Some tenth, sm = None, rain = None,
        rain_def = None, twsa_z = Some (- 1), sm_z = None, rain_z = None,
        rain_def_z = None, asi = Some (- 1), cls = ''alert'' \<rparr>"
    by (simp add: score_row_def t s r a Let_def ALERT_T_def) (simp add: df2_def)
  have r1: "score_row df2 1 =
      \<lparr> basin_id = ''B1'', date = Some 6, twsa = Some tenth, sm = None, rain = None,
        rain_def = None, twsa_z = Some (- 1), sm_z = None, rain_z = None,
        rain_def_z = None, asi = Some (- 1), cls = ''alert'' \<rparr>"
    by (simp add: score_row_def t s r a Let_def ALERT_T_def) (simp add: df2_def)
  have r2: "score_row df2 2 =
      \<lparr> basin_id = ''B1'', date = Some 7, twsa = Some tenth, sm = None, rain = None,
        rain_def = None, twsa_z = Some (- 1), sm_z = None, rain_z = None,
        rain_def_z = None, asi = Some (- 1), cls = ''alert'' \<rparr>"
    by (simp add: score_row_def t s r a Let_def ALERT_T_def) (simp add: df2_def)
  show ?thesis
    unfolding asi_table_def sort_values_def sc list.map r0 r1 r2
    by (simp add: date_key_def less_eq_prod_def)
qed

text \<open>
  C2, at the input on which the program breaks it. A basin whose signal is 0.1 in each
  of three months has zero variance, and the specification says that its standard scores
  are missing. The program computes the standard deviation 2^-56, which is greater than 0, so
  every standard score of the basin is -1, its composite score is -1 and its class is
  alert.
\<close>

theorem z_by_basin_constant_series:
  "std0 [tenth, tenth, tenth] = Some (1 / 2 ^ 56)
   \<and> z_by_basin [(''B1'', Some tenth), (''B1'', Some tenth), (''B1'', Some tenth)] =
       [Some (- 1), Some (- 1), Some (- 1)]
   \<and> map twsa_z (asi_table df2) = [Some (- 1), Some (- 1), Some (- 1)]
   \<and> map asi (asi_table df2) = [Some (- 1), Some (- 1), Some (- 1)]
   \<and> map cls (asi_table df2) = [''alert'', ''alert'', ''alert'']"
  by (simp add: tenth_std tenth_z_by_basin df2_table)

section \<open>Pipeline: facts\<close>

lemmas eval_defs =
  asi_table_def sort_values_def score_def score_row_def
  twsa_z_col_def sm_z_col_def rain_z_cols_def nan_col_def column_def Let_def
  z_by_basin_def z_def rank_in_group_def group_of_def dropna_def std0_def var0_def mean_def
  gt0_def nan_div_def nan_sub_def neg_def asi_row_def asi_num_def asi_den_def weights_def
  mask_def notna_def fillna_def W_RAIN_def W_SM_def W_TWSA_def ALERT_T_def WATCH_T_def
  date_key_def upt_rec [of 0] upt_rec [of 1] upt_rec [of 2] upt_rec [of 3]
  fsum_def fl_simps

lemma neg_neg [simp]: "neg (neg v) = v"
  by (cases v) (simp_all add: neg_def)

lemma neg_None [simp]: "neg None = None"
  by (simp add: neg_def)

lemma length_rain_z_cols [simp]:
  "length (fst (rain_z_cols df)) = length (rows df)"
  "length (snd (rain_z_cols df)) = length (rows df)"
  by (simp_all add: rain_z_cols_def nan_col_def column_def Let_def
        split: option.split rain_kind.split)

lemma rain_z_cols_nth:
  "i < length (rows df) \<Longrightarrow> fst (rain_z_cols df) ! i = neg (snd (rain_z_cols df) ! i)"
  by (simp add: rain_z_cols_def nan_col_def column_def Let_def
        split: option.split rain_kind.split)

lemma set_asi_table: "set (asi_table df) = score_row df ` {..<length (rows df)}"
  by (auto simp: asi_table_def sort_values_def score_def)

lemma asi_score_row:
  "asi (score_row df i) =
     asi_row [twsa_z (score_row df i), sm_z (score_row df i), rain_z (score_row df i)]"
  by (simp add: score_row_def Let_def)

lemma rain_score_row:
  "i < length (rows df) \<Longrightarrow> rain_z (score_row df i) = neg (rain_def_z (score_row df i))"
  by (simp add: score_row_def Let_def rain_z_cols_nth)

lemma df1_table:
  "asi_table df1 =
     [\<lparr> basin_id = ''B1'', date = Some 6, twsa = None, sm = None, rain = Some 0,
         rain_def = None, twsa_z = None, sm_z = None, rain_z = Some (- 1),
         rain_def_z = Some 1, asi = Some (- 1), cls = ''alert'' \<rparr>,
      \<lparr> basin_id = ''B1'', date = Some 7, twsa = None, sm = None, rain = Some 2,
         rain_def = None, twsa_z = None, sm_z = None, rain_z = Some 1,
         rain_def_z = Some (- 1), asi = Some 1, cls = ''normal'' \<rparr>]"
  by (simp add: df1_def eval_defs)

text \<open>
  C1 (as amended). In every row of the table, asi is the weighted average of the
  available standard scores twsa\_z (weight 0.4), sm\_z (weight 0.4) and rain\_z (weight
  0.2): the sum of weight times score over the non-missing scores, divided by the sum of
  their weights. The rain component is the rain-surplus score rain\_z, the negation of
  rain\_def\_z.
\<close>

theorem asi_is_weighted_average_of_rain_z:
  "\<forall>r \<in> set (asi_table df).
     asi r = weighted_average [(W_TWSA, twsa_z r), (W_SM, sm_z r), (W_RAIN, rain_z r)]
     \<and> rain_z r = neg (rain_def_z r)"
  by (auto simp: set_asi_table asi_score_row asi_row_weighted_average rain_score_row)

theorem asi_is_weighted_average_of_rain_z_witness:
  "asi (asi_table df1 ! 0) = Some (- 1)
   \<and> weighted_average [(W_TWSA, twsa_z (asi_table df1 ! 0)), (W_SM, sm_z (asi_table df1 ! 0)),
        (W_RAIN, rain_z (asi_table df1 ! 0))] = Some (- 1)"
proof -
  have m: "asi_table df1 ! 0 \<in> set (asi_table df1)"
    by (simp add: df1_table)
  have a: "asi (asi_table df1 ! 0) = Some (- 1)"
    by (simp add: df1_table)
  from asi_is_weighted_average_of_rain_z [of df1, THEN bspec, OF m, THEN conjunct1] a
  show ?thesis by simp
qed

text \<open>
  C1 as stated fails: with rain\_def\_z in the place of rain\_z the weighted average of the
  first table row of \<open>df1\<close> is 1, and its asi is -1.
\<close>

theorem asi_rain_def_z_counterexample:
  "asi (asi_table df1 ! 0) \<noteq>
     weighted_average [(W_TWSA, twsa_z (asi_table df1 ! 0)), (W_SM, sm_z (asi_table df1 ! 0)),
        (W_RAIN, rain_def_z (asi_table df1 ! 0))]"
  by (simp add: df1_table weighted_average_def available_def W_RAIN_def)

text \<open>
  C6. In every row of the table rain\_z is the negation of rain\_def\_z and conversely.
  With a rainfall-amount column, rain\_z is the z-score of that column and rain\_def\_z its
  negation; with a rainfall-deficit column, rain\_def\_z is the z-score of that column and
  rain\_z its negation; with no precipitation column both are missing in every row.
\<close>

theorem rain_z_negates_rain_def_z:
  "(\<forall>r \<in> set (asi_table df). rain_z r = neg (rain_def_z r) \<and> rain_def_z r = neg (rain_z r))
   \<and> (rain_col df = Some Rain \<longrightarrow>
         fst (rain_z_cols df) = z_by_basin (column rain (rows df))
         \<and> snd (rain_z_cols df) = map neg (fst (rain_z_cols df)))
   \<and> (rain_col df = Some RainDef \<longrightarrow>
         snd (rain_z_cols df) = z_by_basin (column rain_def (rows df))
         \<and> fst (rain_z_cols df) = map neg (snd (rain_z_cols df)))
   \<and> (rain_col df = None \<longrightarrow>
         (\<forall>r \<in> set (asi_table df). rain_z r = None \<and> rain_def_z r = None))"
proof (intro conjI impI ballI)
  fix r assume "r \<in> set (asi_table df)"
  then obtain i where i: "i < length (rows df)" and r: "r = score_row df i"
    by (auto simp: set_asi_table)
  from rain_score_row [OF i] show a: "rain_z r = neg (rain_def_z r)" by (simp add: r)
  show "rain_def_z r = neg (rain_z r)" by (simp add: a)
next
  assume "rain_col df = Some Rain"
  then show "fst (rain_z_cols df) = z_by_basin (column rain (rows df))"
    and "snd (rain_z_cols df) = map neg (fst (rain_z_cols df))"
    by (simp_all add: rain_z_cols_def Let_def)
next
  assume "rain_col df = Some RainDef"
  then show "snd (rain_z_cols df) = z_by_basin (column rain_def (rows df))"
    and "fst (rain_z_cols df) = map neg (snd (rain_z_cols df))"
    by (simp_all add: rain_z_cols_def Let_def)
next
  fix r assume n: "rain_col df = None" and "r \<in> set (asi_table df)"
  then obtain i where i: "i < length (rows df)" and r: "r = score_row df i"
    by (auto simp: set_asi_table)
  from n i show "rain_z r = None" and "rain_def_z r = None"
    by (simp_all add: r score_row_def Let_def rain_z_cols_def nan_col_def)
qed

theorem rain_z_negates_rain_def_z_witness:
  "rain_z (asi_table df1 ! 1) = Some 1 \<and> rain_def_z (asi_table df1 ! 1) = Some (- 1)
   \<and> rain_z (asi_table df1 ! 1) = neg (rain_def_z (asi_table df1 ! 1))"
proof -
  have m: "asi_table df1 ! 1 \<in> set (asi_table df1)"
    by (simp add: df1_table)
  have a: "rain_z (asi_table df1 ! 1) = Some 1" "rain_def_z (asi_table df1 ! 1) = Some (- 1)"
    by (simp_all add: df1_table)
  from rain_z_negates_rain_def_z [of df1, THEN conjunct1, THEN bspec, OF m, THEN conjunct1] a
  show ?thesis by simp
qed


lemma df8_table:
  "asi_table df8 =
     [\<lparr> basin_id = ''B1'', date = Some 6, twsa = Some 3, sm = None, rain = None,
         rain_def = None, twsa_z = None, sm_z = None, rain_z = None,
         rain_def_z = None, asi = None, cls = ''no-data'' \<rparr>,
      \<lparr> basin_id = ''B1'', date = Some 7, twsa = Some 3, sm = None, rain = None,
         rain_def = None, twsa_z = None, sm_z = None, rain_z = None,
         rain_def_z = None, asi = None, cls = ''no-data'' \<rparr>,
      \<lparr> basin_id = ''B2'', date = Some 6, twsa = Some 1, sm = None, rain = None,
         rain_def = None, twsa_z = None, sm_z = None, rain_z = None,
         rain_def_z = None, asi = None, cls = ''no-data'' \<rparr>]"
  by (simp add: df8_def eval_defs less_eq_prod_def)

section \<open>Coverage selector: facts\<close>

lemma index_max_Max: "ds \<noteq> [] \<Longrightarrow> index_max ds = Some (Max (set ds))"
  by (cases ds) (simp_all add: index_max_def Max.set_eq_fold [symmetric])

lemma set_months_of: "set (months_of t) = {d. \<exists>r \<in> set t. date r = Some d}"
  by (force simp: months_of_def List.map_filter_def image_iff)

lemma set_covered:
  "set (map fst (filter (\<lambda>(d, k). k > 0) (cov t))) =
     {d. \<exists>r \<in> set t. date r = Some d \<and> asi r \<noteq> None}"
proof -
  have n: "filter (\<lambda>r. date r = Some d \<and> notna (asi r)) t \<noteq> [] \<longleftrightarrow>
      (\<exists>r \<in> set t. date r = Some d \<and> asi r \<noteq> None)" for d
    by (auto simp: notna_def filter_empty_conv)
  have "map fst (filter (\<lambda>(d, k). k > 0) (cov t)) =
      filter (\<lambda>d. 0 < length (filter (\<lambda>r. date r = Some d \<and> notna (asi r)) t))
        (sort (remdups (months_of t)))"
    by (simp add: cov_def filter_map o_def)
  then show ?thesis
    by (auto simp: set_months_of n)
qed

lemma df5_table:
  "asi_table df5 =
     [\<lparr> basin_id = ''B1'', date = Some 5, twsa = Some 2, sm = None, rain = None,
         rain_def = None, twsa_z = Some 1, sm_z = None, rain_z = None,
         rain_def_z = None, asi = Some 1, cls = ''normal'' \<rparr>,
      \<lparr> basin_id = ''B1'', date = Some 6, twsa = Some 0, sm = None, rain = None,
         rain_def = None, twsa_z = Some (- 1), sm_z = None, rain_z = None,
         rain_def_z = None, asi = Some (- 1), cls = ''alert'' \<rparr>,
      \<lparr> basin_id = ''B1'', date = Some 7, twsa = None, sm = None, rain = None,
         rain_def = None, twsa_z = None, sm_z = None, rain_z = None,
         rain_def_z = None, asi = None, cls = ''no-data'' \<rparr>]"
  by (simp add: df5_def eval_defs)

subsection \<open>The latest snapshot\<close>

lemma latest_rows_date: "r \<in> set (latest_rows t) \<Longrightarrow> date r = latest_dt t"
  by (auto simp: latest_rows_def split: option.splits)

lemma find_in_set: "find P xs = Some x \<Longrightarrow> x \<in> set xs"
  by (induction xs) (auto split: if_splits)

lemma by_id_Some: "by_id latest bid = Some row \<Longrightarrow> row \<in> set latest"
  using find_in_set [of _ "rev latest" row] by (simp add: by_id_def)

lemma snapshot_date:
  assumes "f \<in> set (latest_snapshot gj t)"
  shows "p_date f = latest_dt t"
proof -
  from assms obtain g where f: "f = latest_feature (latest_rows t) (latest_dt t) g"
    by (auto simp: latest_snapshot_def)
  show ?thesis
  proof (cases "by_id (latest_rows t) (py_str (p_basin_id g))")
    case None
    then show ?thesis by (simp add: f latest_feature_def Let_def)
  next
    case (Some row)
    from by_id_Some [OF this] have "date row = latest_dt t"
      by (rule latest_rows_date)
    with Some show ?thesis by (simp add: f latest_feature_def Let_def)
  qed
qed

subsection \<open>The chosen month\<close>

lemma notna_simps: "notna None = False" "notna (Some x) = True"
  by (simp_all add: notna_def)

lemma df5_latest: "latest_dt (asi_table df5) = Some 6"
  by (simp add: df5_table latest_dt_def cov_def months_of_def index_max_def notna_simps Let_def)

lemma df5_snapshot: "map p_date (latest_snapshot gj0 (asi_table df5)) = [Some 6, Some 6]"
  unfolding latest_snapshot_def latest_rows_def df5_latest
  by (simp add: latest_feature_def by_id_def gj0_def py_str_def df5_table Let_def)

text \<open>
  C5. The month chosen for the latest snapshot is the latest month of the table in which
  some row has a composite score; when no month has one, it is the latest month of the
  table. In particular, when month M1 has a composite score and M2 is a later month of
  the table, and no month after M1 has a composite score, the choice is M1 and not M2.
  Every feature of the snapshot carries the chosen month as its date.
\<close>

theorem latest_dt_coverage:
  fixes t :: "scored_row list"
  defines "present \<equiv> {d. \<exists>r \<in> set t. date r = Some d}"
  defines "covered \<equiv> {d. \<exists>r \<in> set t. date r = Some d \<and> asi r \<noteq> None}"
  shows "(covered \<noteq> {} \<longrightarrow> latest_dt t = Some (Max covered))
       \<and> (covered = {} \<and> present \<noteq> {} \<longrightarrow> latest_dt t = Some (Max present))
       \<and> (\<forall>M1 M2. M1 \<in> covered \<and> M2 \<in> present \<and> M1 < M2
               \<and> (\<forall>d \<in> present. M1 < d \<longrightarrow> d \<notin> covered)
             \<longrightarrow> latest_dt t = Some M1 \<and> latest_dt t \<noteq> Some M2)
       \<and> (\<forall>gj. \<forall>f \<in> set (latest_snapshot gj t). p_date f = latest_dt t)"
proof -
  let ?pos = "filter (\<lambda>(d, k). k > 0) (cov t)"
  have c: "set (map fst ?pos) = covered"
    unfolding covered_def by (rule set_covered)
  have p: "set (months_of t) = present"
    unfolding present_def by (rule set_months_of)
  have sub: "covered \<subseteq> present"
    by (auto simp: covered_def present_def)
  have a: "latest_dt t = Some (Max covered)" if "covered \<noteq> {}"
  proof -
    from that c have "set (map fst ?pos) \<noteq> {}" by simp
    then have ne: "map fst ?pos \<noteq> []" by (simp only: set_empty not_False_eq_True)
    then have "?pos \<noteq> []" by simp
    then have "latest_dt t = index_max (map fst ?pos)"
      by (simp add: latest_dt_def Let_def)
    with index_max_Max [OF ne] c show ?thesis by simp
  qed
  have b: "latest_dt t = Some (Max present)" if "covered = {}" "present \<noteq> {}"
  proof -
    from that(1) c have "set (map fst ?pos) = {}" by simp
    then have "map fst ?pos = []" by (simp only: set_empty)
    then have "?pos = []" by simp
    then have "latest_dt t = index_max (months_of t)"
      by (simp add: latest_dt_def Let_def)
    moreover from that(2) p have "months_of t \<noteq> []" by auto
    ultimately show ?thesis using index_max_Max p by simp
  qed
  have fin: "finite covered"
    unfolding c [symmetric] by (rule finite_set)
  have e: "latest_dt t = Some M1 \<and> latest_dt t \<noteq> Some M2"
    if "M1 \<in> covered" "M2 \<in> present" "M1 < M2"
      "\<forall>d \<in> present. M1 < d \<longrightarrow> d \<notin> covered" for M1 M2
  proof -
    from that(4) sub have "\<forall>d \<in> covered. d \<le> M1" by force
    with that(1) fin have m: "Max covered = M1" by (intro Max_eqI) auto
    from that(1) have "covered \<noteq> {}" by auto
    from a [OF this] m have "latest_dt t = Some M1" by simp
    with that(3) show ?thesis by simp
  qed
  have s: "\<forall>gj. \<forall>f \<in> set (latest_snapshot gj t). p_date f = latest_dt t"
    by (simp add: snapshot_date)
  from a b e s show ?thesis by blast
qed

theorem latest_dt_coverage_witness:
  "latest_dt (asi_table df5) = Some 6 \<and> latest_dt (asi_table df5) \<noteq> Some 7
   \<and> date (asi_table df5 ! 2) = Some 7 \<and> asi (asi_table df5 ! 2) = None
   \<and> latest_dt (asi_table df8) = Some 7
   \<and> map p_date (latest_snapshot gj0 (asi_table df5)) = [Some 6, Some 6]"
proof -
  have c5: "{d. \<exists>r \<in> set (asi_table df5). date r = Some d \<and> asi r \<noteq> None} = {5, 6}"
    and p5: "{d. \<exists>r \<in> set (asi_table df5). date r = Some d} = {5, 6, 7}"
    by (auto simp: df5_table)
  have c8: "{d. \<exists>r \<in> set (asi_table df8). date r = Some d \<and> asi r \<noteq> None} = {}"
    and p8: "{d. \<exists>r \<in> set (asi_table df8). date r = Some d} = {6, 7}"
    by (auto simp: df8_table)
  have a: "latest_dt (asi_table df5) = Some 6 \<and> latest_dt (asi_table df5) \<noteq> Some 7"
    using latest_dt_coverage [of "asi_table df5", THEN conjunct2, THEN conjunct2,
        THEN conjunct1, THEN spec, THEN spec, of 6 7]
    unfolding c5 p5 by simp
  have b: "latest_dt (asi_table df8) = Some 7"
    using latest_dt_coverage [of "asi_table df8", THEN conjunct2, THEN conjunct1]
    unfolding c8 p8 by simp
  have c: "map p_date (latest_snapshot gj0 (asi_table df5)) = [Some 6, Some 6]"
    by (rule df5_snapshot)
  from a b c show ?thesis by (simp add: df5_table)
qed

section \<open>The persisted table and rounding: facts\<close>

lemma round_half_even_near: "\<bar>of_int (round_half_even y) - y\<bar> \<le> 1 / 2"
  unfolding round_half_even_def Let_def by (simp add: abs_le_iff)

lemma round3_near: "\<bar>round3 x - x\<bar> \<le> 1 / 2000"
proof -
  let ?k = "of_int (round_half_even (x * 1000)) :: real"
  have "round3 x - x = (?k - x * 1000) / 1000"
    by (simp add: round3_def diff_divide_distrib)
  then have "\<bar>round3 x - x\<bar> = \<bar>?k - x * 1000\<bar> / 1000"
    by (simp only: abs_divide abs_numeral)
  also have "\<dots> \<le> (1 / 2) / 1000"
    using round_half_even_near [of "x * 1000"] by (intro divide_right_mono) simp_all
  finally show ?thesis by simp
qed

lemma df7_table:
  "asi_table df7 =
     [\<lparr> basin_id = ''B1'', date = Some 6, twsa = Some 0, sm = None, rain = Some 2,
         rain_def = None, twsa_z = Some (- 1), sm_z = None, rain_z = Some 1,
         rain_def_z = Some (- 1), asi = Some (- (1 / 3)), cls = ''normal'' \<rparr>,
      \<lparr> basin_id = ''B1'', date = Some 7, twsa = Some 2, sm = None, rain = Some 0,
         rain_def = None, twsa_z = Some 1, sm_z = None, rain_z = Some (- 1),
         rain_def_z = Some 1, asi = Some (1 / 3), cls = ''normal'' \<rparr>]"
  by (simp add: df7_def eval_defs)

lemma round3_third: "round3 (- (1 / 3)) = - (333 / 1000)"
  by (simp add: round3_def round_half_even_def Let_def)

lemma round3_idem: "round3 (round3 x) = round3 x"
  by (simp add: round3_def round_half_even_of_int)

lemma null_or_rounded3_r: "null_or_rounded3 (compute_asi_r v)"
  by (cases v) (simp_all add: null_or_rounded3_def round3_idem)

lemma snapshot_rounded:
  assumes "f \<in> set (latest_snapshot gj t)"
  shows "list_all null_or_rounded3 [p_twsa_z f, p_sm_z f, p_rain_z f, p_rain_def_z f, p_asi f]"
proof -
  from assms obtain g where f: "f = latest_feature (latest_rows t) (latest_dt t) g"
    by (auto simp: latest_snapshot_def)
  show ?thesis
    by (cases "by_id (latest_rows t) (py_str (p_basin_id g))")
       (simp_all add: f latest_feature_def Let_def null_or_rounded3_r,
        simp add: null_or_rounded3_def)
qed

lemma round3_third_pos: "round3 (1 / 3) = 333 / 1000"
  by (simp add: round3_def round_half_even_def Let_def)

lemma df7_latest: "latest_dt (asi_table df7) = Some 7"
  by (simp add: df7_table latest_dt_def cov_def months_of_def index_max_def notna_simps Let_def)

lemma df7_snapshot:
  "map p_asi (latest_snapshot gj0 (asi_table df7)) = [Some (333 / 1000), None]"
  unfolding latest_snapshot_def latest_rows_def df7_latest
  by (simp add: latest_feature_def by_id_def gj0_def py_str_def df7_table Let_def
      round3_third_pos)


text \<open>
  C7 as stated fails: the first row of the table of \<open>df7\<close> has asi -1/3, and the
  asi field written for it is -1/3, not -0.333.
\<close>

theorem table_not_rounded_counterexample:
  "\<not> rounded3 (c_asi (to_csv (asi_table df7) ! 0))"
  by (simp add: df7_table to_csv_def to_csv_row_def to_field_def rounded3_def round3_third)

text \<open>
  C7 (as amended). In the persisted table every absent value is written as the empty
  field, never as 0 and never as the text nan, and every number is written as it was
  computed, without rounding. Rounding to 3 decimals is what \<open>_r\<close> does, in the
  pipeline and in the query layer: it gives null for an absent value and otherwise a
  multiple of 0.001 within 0.0005 of the value. Every score of every feature of the
  latest snapshot is null or rounded to 3 decimals.
\<close>

theorem table_fields_and_rounding:
  "list_all2
     (\<lambda>v f. (v = None \<longleftrightarrow> f = Empty) \<and> (\<forall>x. v = Some x \<longrightarrow> f = Num x)
            \<and> f \<noteq> Text ''nan'' \<and> (f = Num 0 \<longrightarrow> v = Some 0))
     (numeric_values r) (numeric_fields (to_csv_row r))
   \<and> compute_asi_r None = None \<and> main_r Empty = None
   \<and> (\<forall>x. \<exists>k::int. compute_asi_r (Some x) = Some (of_int k / 1000)
           \<and> main_r (Num x) = Some (Finite (of_int k / 1000))
           \<and> \<bar>of_int k / 1000 - x\<bar> \<le> 1 / 2000)
   \<and> (\<forall>gj t. \<forall>f \<in> set (latest_snapshot gj t).
         list_all null_or_rounded3
           [p_twsa_z f, p_sm_z f, p_rain_z f, p_rain_def_z f, p_asi f])"
proof -
  have f: "(v = None \<longleftrightarrow> to_field v = Empty) \<and> (\<forall>x. v = Some x \<longrightarrow> to_field v = Num x)
      \<and> to_field v \<noteq> Text ''nan'' \<and> (to_field v = Num 0 \<longrightarrow> v = Some 0)" for v
    by (cases v) (simp_all add: to_field_def)
  have a: "list_all2
     (\<lambda>v f. (v = None \<longleftrightarrow> f = Empty) \<and> (\<forall>x. v = Some x \<longrightarrow> f = Num x)
            \<and> f \<noteq> Text ''nan'' \<and> (f = Num 0 \<longrightarrow> v = Some 0))
     (numeric_values r) (numeric_fields (to_csv_row r))"
    unfolding numeric_values_def numeric_fields_def to_csv_row_def
    using f by simp
  have b: "\<exists>k::int. compute_asi_r (Some x) = Some (of_int k / 1000)
           \<and> main_r (Num x) = Some (Finite (of_int k / 1000))
           \<and> \<bar>of_int k / 1000 - x\<bar> \<le> 1 / 2000" for x
    using round3_near [of x]
    by (intro exI [of _ "round_half_even (x * 1000)"]) (simp add: round3_def)
  have c: "\<forall>gj t. \<forall>f \<in> set (latest_snapshot gj t).
         list_all null_or_rounded3
           [p_twsa_z f, p_sm_z f, p_rain_z f, p_rain_def_z f, p_asi f]"
    using snapshot_rounded by blast
  from a b c show ?thesis by simp
qed

theorem table_fields_and_rounding_witness:
  "numeric_fields (to_csv_row (asi_table df7 ! 0)) =
     [Num 0, Empty, Num 2, Empty, Num (- 1), Empty, Num 1, Num (- 1), Num (- (1 / 3))]
   \<and> compute_asi_r (asi (asi_table df7 ! 0)) = Some (- (333 / 1000))
   \<and> compute_asi_r (sm_z (asi_table df7 ! 0)) = None
   \<and> map p_asi (latest_snapshot gj0 (asi_table df7)) = [Some (333 / 1000), None]"
proof -
  have s: "map p_asi (latest_snapshot gj0 (asi_table df7)) = [Some (333 / 1000), None]"
    by (rule df7_snapshot)
  from table_fields_and_rounding [of "asi_table df7 ! 0", THEN conjunct1] s
  show ?thesis
    by (simp add: df7_table numeric_values_def numeric_fields_def to_csv_row_def to_field_def
        round3_third)
qed

section \<open>History: facts\<close>

lemma sorted_same_basin:
  "\<forall>r \<in> set ys. basin_id r = b \<Longrightarrow>
     sorted (map (\<lambda>r. (basin_id r, date_key (date r))) ys) \<Longrightarrow>
     sorted (map (\<lambda>r. date_key (date r)) ys)"
  unfolding sorted_map
  by (erule sorted_wrt_mono_rel [rotated]) (auto simp: less_eq_prod_def)

lemma history_sorted:
  "sorted (map (\<lambda>r. date_key (date r)) (filter (\<lambda>r. basin_id r = b) (asi_table df)))"
proof -
  let ?K = "\<lambda>r :: scored_row. (basin_id r, date_key (date r))"
  have "sorted (map ?K (asi_table df))"
    by (simp add: asi_table_def sort_values_def)
  then have "sorted (map ?K (filter (\<lambda>r. basin_id r = b) (asi_table df)))"
    by (rule sorted_filter)
  then show ?thesis
    using sorted_same_basin [of "filter (\<lambda>r. basin_id r = b) (asi_table df)" b] by simp
qed

lemma basin_id_score_row: "basin_id (score_row df i) = basin_id (rows df ! i)"
  by (simp add: score_row_def Let_def)

lemma history_length:
  "length (filter (\<lambda>r. basin_id r = b) (asi_table df)) =
     length (filter (\<lambda>r. basin_id r = b) (rows df))"
proof -
  have "length (filter (\<lambda>r. basin_id r = b) (asi_table df)) =
      length (filter (\<lambda>r. basin_id r = b) (score df))"
    by (simp add: asi_table_def sort_values_def filter_sort)
  also have "\<dots> = length (filter (\<lambda>i. basin_id (rows df ! i) = b) [0..<length (rows df)])"
    by (simp add: score_def filter_map o_def basin_id_score_row)
  also have "\<dots> = length (filter (\<lambda>r. basin_id r = b) (map (\<lambda>i. rows df ! i) [0..<length (rows df)]))"
    by (simp add: filter_map o_def)
  also have "\<dots> = length (filter (\<lambda>r. basin_id r = b) (rows df))"
    by (simp only: map_nth)
  finally show ?thesis .
qed

lemma history_of_table:
  "map hist_of (filter (\<lambda>row. c_basin_id row = b) (to_csv t)) =
     map (hist_of \<circ> to_csv_row) (filter (\<lambda>r. basin_id r = b) t)"
  by (simp add: to_csv_def filter_map o_def to_csv_row_def)

lemma h_date_of_table: "h_date (hist_of (to_csv_row r)) = date r"
  by (simp add: hist_of_def to_csv_row_def)

lemma main_r_to_field: "main_r (to_field v) = map_option (\<lambda>x. Finite (round3 x)) v"
  by (cases v) (simp_all add: to_field_def)

lemma hist_of_table_row:
  "hist_of (to_csv_row r) =
     \<lparr> h_date = date r,
       h_twsa_z = map_option (\<lambda>x. Finite (round3 x)) (twsa_z r),
       h_sm_z = map_option (\<lambda>x. Finite (round3 x)) (sm_z r),
       h_rain_z = map_option (\<lambda>x. Finite (round3 x)) (rain_z r),
       h_rain_def_z = map_option (\<lambda>x. Finite (round3 x)) (rain_def_z r),
       h_asi = map_option (\<lambda>x. Finite (round3 x)) (asi r),
       h_class = cls r \<rparr>"
  by (simp add: hist_of_def to_csv_row_def main_r_to_field)

lemma main_r_cases:
  "main_r c = (case c of Num x \<Rightarrow> Some (Finite (round3 x))
     | NumNF p \<Rightarrow> Some (NonFinite p) | _ \<Rightarrow> None)"
  by (cases c) simp_all

lemma hist_of_fields:
  "hist_of =
     (\<lambda>row.
        \<lparr> h_date = c_date row,
          h_twsa_z = (case c_twsa_z row of Num x \<Rightarrow> Some (Finite (round3 x))
             | NumNF p \<Rightarrow> Some (NonFinite p) | _ \<Rightarrow> None),
          h_sm_z = (case c_sm_z row of Num x \<Rightarrow> Some (Finite (round3 x))
             | NumNF p \<Rightarrow> Some (NonFinite p) | _ \<Rightarrow> None),
          h_rain_z = (case c_rain_z row of Num x \<Rightarrow> Some (Finite (round3 x))
             | NumNF p \<Rightarrow> Some (NonFinite p) | _ \<Rightarrow> None),
          h_rain_def_z = (case c_rain_def_z row of Num x \<Rightarrow> Some (Finite (round3 x))
             | NumNF p \<Rightarrow> Some (NonFinite p) | _ \<Rightarrow> None),
          h_asi = (case c_asi row of Num x \<Rightarrow> Some (Finite (round3 x))
             | NumNF p \<Rightarrow> Some (NonFinite p) | _ \<Rightarrow> None),
          h_class = c_class row \<rparr>)"
  by (rule ext) (simp only: hist_of_def main_r_cases)

lemma table_has_basin:
  "(\<exists>row \<in> set (to_csv (asi_table df)). c_basin_id row = b) \<longleftrightarrow>
     (\<exists>r \<in> set (rows df). basin_id r = b)"
proof -
  have "(\<exists>row \<in> set (to_csv (asi_table df)). c_basin_id row = b) \<longleftrightarrow>
      filter (\<lambda>r. basin_id r = b) (asi_table df) \<noteq> []"
    by (auto simp: to_csv_def to_csv_row_def filter_empty_conv)
  also have "\<dots> \<longleftrightarrow> filter (\<lambda>r. basin_id r = b) (rows df) \<noteq> []"
    using history_length [of b df] by (metis length_0_conv)
  also have "\<dots> \<longleftrightarrow> (\<exists>r \<in> set (rows df). basin_id r = b)"
    by (auto simp: filter_empty_conv)
  finally show ?thesis .
qed

text \<open>
  C8. With no table file the history is a not-found error. With a table, the history of
  a basin is a not-found error exactly when no row of the table has that basin\_id, and
  otherwise it has one entry for each row of that basin, in table order: the date and
  the class of the row as they are, and each of twsa\_z, sm\_z, rain\_z, rain\_def\_z and
  asi read from its field, a number rounded to 3 decimals and an empty field null.
  On the table that the pipeline writes from a frame: the history of a basin with no
  row in the frame is the not-found error; the history of a basin with a row in the
  frame lists, for each scored row of the basin, its month, its four standard scores and
  its composite score, each rounded to 3 decimals or null when missing, and its class,
  whether or not any composite score is present; there are as many entries as the basin
  has rows in the frame, and they are in chronological order, rows without a date last.
\<close>

theorem asi_history_rows:
  "(\<exists>e. asi_history None b = Inl e)
   \<and> (\<forall>tbl. (\<exists>e. asi_history (Some tbl) b = Inl e) \<longleftrightarrow> (\<forall>row \<in> set tbl. c_basin_id row \<noteq> b))
   \<and> (\<forall>tbl. (\<forall>row \<in> set tbl. c_basin_id row \<noteq> b) \<longrightarrow>
         asi_history (Some tbl) b = Inl (HTTPException 404 (''No history for basin_id='' @ b)))
   \<and> (\<forall>tbl. (\<exists>row \<in> set tbl. c_basin_id row = b) \<longrightarrow>
         asi_history (Some tbl) b =
           Inr (map (\<lambda>row.
                  \<lparr> h_date = c_date row,
                    h_twsa_z = (case c_twsa_z row of Num x \<Rightarrow> Some (Finite (round3 x))
                       | NumNF p \<Rightarrow> Some (NonFinite p) | _ \<Rightarrow> None),
                    h_sm_z = (case c_sm_z row of Num x \<Rightarrow> Some (Finite (round3 x))
                       | NumNF p \<Rightarrow> Some (NonFinite p) | _ \<Rightarrow> None),
                    h_rain_z = (case c_rain_z row of Num x \<Rightarrow> Some (Finite (round3 x))
                       | NumNF p \<Rightarrow> Some (NonFinite p) | _ \<Rightarrow> None),
                    h_rain_def_z = (case c_rain_def_z row of Num x \<Rightarrow> Some (Finite (round3 x))
                       | NumNF p \<Rightarrow> Some (NonFinite p) | _ \<Rightarrow> None),
                    h_asi = (case c_asi row of Num x \<Rightarrow> Some (Finite (round3 x))
                       | NumNF p \<Rightarrow> Some (NonFinite p) | _ \<Rightarrow> None),
                    h_class = c_class row \<rparr>)
                (filter (\<lambda>row. c_basin_id row = b) tbl)))
   \<and> (\<forall>df. (\<forall>r \<in> set (rows df). basin_id r \<noteq> b) \<longrightarrow>
         asi_history (Some (to_csv (asi_table df))) b =
           Inl (HTTPException 404 (''No history for basin_id='' @ b)))
   \<and> (\<forall>df. (\<exists>r \<in> set (rows df). basin_id r = b) \<longrightarrow>
         asi_history (Some (to_csv (asi_table df))) b =
           Inr (map (\<lambda>r.
                  \<lparr> h_date = date r,
                    h_twsa_z = map_option (\<lambda>x. Finite (round3 x)) (twsa_z r),
                    h_sm_z = map_option (\<lambda>x. Finite (round3 x)) (sm_z r),
                    h_rain_z = map_option (\<lambda>x. Finite (round3 x)) (rain_z r),
                    h_rain_def_z = map_option (\<lambda>x. Finite (round3 x)) (rain_def_z r),
                    h_asi = map_option (\<lambda>x. Finite (round3 x)) (asi r),
                    h_class = cls r \<rparr>)
                (filter (\<lambda>r. basin_id r = b) (asi_table df))))
   \<and> (\<forall>df. length (filter (\<lambda>r. basin_id r = b) (asi_table df)) =
           length (filter (\<lambda>r. basin_id r = b) (rows df))
         \<and> sorted (map (\<lambda>r. date_key (date r)) (filter (\<lambda>r. basin_id r = b) (asi_table df))))
   \<and> (\<forall>df out. asi_history (Some (to_csv (asi_table df))) b = Inr out \<longrightarrow>
         length out = length (filter (\<lambda>r. basin_id r = b) (rows df))
         \<and> sorted (map (\<lambda>h. date_key (h_date h)) out))"
proof (intro conjI allI impI)
  show "\<exists>e. asi_history None b = Inl e"
    by (simp add: asi_history_def)
next
  fix tbl :: "csv_row list"
  show "(\<exists>e. asi_history (Some tbl) b = Inl e) \<longleftrightarrow> (\<forall>row \<in> set tbl. c_basin_id row \<noteq> b)"
    by (auto simp: asi_history_def Let_def filter_empty_conv)
next
  fix tbl :: "csv_row list" assume "\<forall>row \<in> set tbl. c_basin_id row \<noteq> b"
  then show "asi_history (Some tbl) b =
      Inl (HTTPException 404 (''No history for basin_id='' @ b))"
    by (auto simp: asi_history_def Let_def filter_empty_conv)
next
  fix tbl :: "csv_row list" assume "\<exists>row \<in> set tbl. c_basin_id row = b"
  then have "filter (\<lambda>row. c_basin_id row = b) tbl \<noteq> []"
    by (auto simp: filter_empty_conv)
  then have "asi_history (Some tbl) b =
      Inr (map hist_of (filter (\<lambda>row. c_basin_id row = b) tbl))"
    by (simp add: asi_history_def Let_def)
  then show "asi_history (Some tbl) b =
      Inr (map (\<lambda>row.
             \<lparr> h_date = c_date row,
               h_twsa_z = (case c_twsa_z row of Num x \<Rightarrow> Some (Finite (round3 x))
                  | NumNF p \<Rightarrow> Some (NonFinite p) | _ \<Rightarrow> None),
               h_sm_z = (case c_sm_z row of Num x \<Rightarrow> Some (Finite (round3 x))
                  | NumNF p \<Rightarrow> Some (NonFinite p) | _ \<Rightarrow> None),
               h_rain_z = (case c_rain_z row of Num x \<Rightarrow> Some (Finite (round3 x))
                  | NumNF p \<Rightarrow> Some (NonFinite p) | _ \<Rightarrow> None),
               h_rain_def_z = (case c_rain_def_z row of Num x \<Rightarrow> Some (Finite (round3 x))
                  | NumNF p \<Rightarrow> Some (NonFinite p) | _ \<Rightarrow> None),
               h_asi = (case c_asi row of Num x \<Rightarrow> Some (Finite (round3 x))
                  | NumNF p \<Rightarrow> Some (NonFinite p) | _ \<Rightarrow> None),
               h_class = c_class row \<rparr>)
           (filter (\<lambda>row. c_basin_id row = b) tbl))"
    by (simp only: hist_of_fields)
next
  fix df :: frame assume "\<forall>r \<in> set (rows df). basin_id r \<noteq> b"
  then have "\<forall>row \<in> set (to_csv (asi_table df)). c_basin_id row \<noteq> b"
    using table_has_basin [of df b] by blast
  then show "asi_history (Some (to_csv (asi_table df))) b =
      Inl (HTTPException 404 (''No history for basin_id='' @ b))"
    by (auto simp: asi_history_def Let_def filter_empty_conv)
next
  fix df :: frame assume "\<exists>r \<in> set (rows df). basin_id r = b"
  then have "\<exists>row \<in> set (to_csv (asi_table df)). c_basin_id row = b"
    using table_has_basin [of df b] by blast
  then have "filter (\<lambda>row. c_basin_id row = b) (to_csv (asi_table df)) \<noteq> []"
    by (auto simp: filter_empty_conv)
  then have "asi_history (Some (to_csv (asi_table df))) b =
      Inr (map hist_of (filter (\<lambda>row. c_basin_id row = b) (to_csv (asi_table df))))"
    by (simp add: asi_history_def Let_def)
  then show "asi_history (Some (to_csv (asi_table df))) b =
      Inr (map (\<lambda>r.
             \<lparr> h_date = date r,
               h_twsa_z = map_option (\<lambda>x. Finite (round3 x)) (twsa_z r),
               h_sm_z = map_option (\<lambda>x. Finite (round3 x)) (sm_z r),
               h_rain_z = map_option (\<lambda>x. Finite (round3 x)) (rain_z r),
               h_rain_def_z = map_option (\<lambda>x. Finite (round3 x)) (rain_def_z r),
               h_asi = map_option (\<lambda>x. Finite (round3 x)) (asi r),
               h_class = cls r \<rparr>)
           (filter (\<lambda>r. basin_id r = b) (asi_table df)))"
    by (simp only: history_of_table o_def hist_of_table_row)
next
  fix df :: frame
  show "length (filter (\<lambda>r. basin_id r = b) (asi_table df)) =
      length (filter (\<lambda>r. basin_id r = b) (rows df))"
    by (rule history_length)
  show "sorted (map (\<lambda>r. date_key (date r)) (filter (\<lambda>r. basin_id r = b) (asi_table df)))"
    by (rule history_sorted)
next
  fix df out
  assume a: "asi_history (Some (to_csv (asi_table df))) b = Inr out"
  then have out: "out = map (hist_of \<circ> to_csv_row) (filter (\<lambda>r. basin_id r = b) (asi_table df))"
    by (simp add: asi_history_def Let_def history_of_table split: if_splits)
  show "length out = length (filter (\<lambda>r. basin_id r = b) (rows df))"
    by (simp add: out history_length)
  show "sorted (map (\<lambda>h. date_key (h_date h)) out)"
    using history_sorted [of b df] by (simp add: out o_def h_date_of_table)
qed

theorem asi_history_rows_witness:
  "asi_history (Some (to_csv (asi_table df7))) ''B1'' =
     Inr [\<lparr> h_date = Some 6, h_twsa_z = Some (Finite (- 1)), h_sm_z = None,
             h_rain_z = Some (Finite 1), h_rain_def_z = Some (Finite (- 1)),
             h_asi = Some (Finite (- (333 / 1000))), h_class = ''normal'' \<rparr>,
          \<lparr> h_date = Some 7, h_twsa_z = Some (Finite 1), h_sm_z = None,
             h_rain_z = Some (Finite (- 1)), h_rain_def_z = Some (Finite 1),
             h_asi = Some (Finite (333 / 1000)), h_class = ''normal'' \<rparr>]
   \<and> asi_history (Some (to_csv (asi_table df8))) ''B1'' =
       Inr [\<lparr> h_date = Some 6, h_twsa_z = None, h_sm_z = None, h_rain_z = None,
               h_rain_def_z = None, h_asi = None, h_class = ''no-data'' \<rparr>,
            \<lparr> h_date = Some 7, h_twsa_z = None, h_sm_z = None, h_rain_z = None,
               h_rain_def_z = None, h_asi = None, h_class = ''no-data'' \<rparr>]
   \<and> asi_history (Some (to_csv (asi_table df8))) ''B9'' =
       Inl (HTTPException 404 ''No history for basin_id=B9'')"
proof -
  have y7: "\<exists>r \<in> set (rows df7). basin_id r = ''B1''"
    by (simp add: df7_def)
  have y8: "\<exists>r \<in> set (rows df8). basin_id r = ''B1''"
    by (simp add: df8_def)
  have n8: "\<forall>r \<in> set (rows df8). basin_id r \<noteq> ''B9''"
    by (simp add: df8_def)
  have r: "round3 1 = 1" "round3 (- 1) = - 1"
    by (simp_all add: round3_def round_half_even_def Let_def)
  from asi_history_rows [of "''B1''", THEN conjunct2, THEN conjunct2, THEN conjunct2,
      THEN conjunct2, THEN conjunct2, THEN conjunct1, THEN spec, THEN mp, OF y7]
    asi_history_rows [of "''B1''", THEN conjunct2, THEN conjunct2, THEN conjunct2,
      THEN conjunct2, THEN conjunct2, THEN conjunct1, THEN spec, THEN mp, OF y8]
    asi_history_rows [of "''B9''", THEN conjunct2, THEN conjunct2, THEN conjunct2,
      THEN conjunct2, THEN conjunct1, THEN spec, THEN mp, OF n8]
  show ?thesis
    by (simp add: df7_table df8_table r round3_third round3_third_pos)
qed


section \<open>Ranking: facts\<close>

lemma wanted_of_empty: "wanted_of '''' = []"
  by (simp add: wanted_of_def strip_def)


lemma set_top10_rows:
  "set (top10_rows fs) = {top10_row f a | f a. f \<in> set fs \<and> p_asi f = Some a}"
  by (force simp: top10_rows_def List.map_filter_def image_iff)

lemma length_top10_rows:
  "length (top10_rows fs) = length (filter (\<lambda>f. p_asi f \<noteq> None) fs)"
  by (simp add: top10_rows_def List.map_filter_def)

lemma round3_examples:
  "round3 (3 / 10) = 3 / 10" "round3 (- (6 / 5)) = - (6 / 5)"
  by (simp_all add: round3_def round_half_even_def Let_def)

lemma fs0_rows:
  "top10_rows fs0 =
     [\<lparr> rr_basin_id = Some (IdStr ''B1''), rr_name = Some ''Ferlo'', rr_asi = 3 / 10,
         rr_class = Some ''normal'', rr_date = Some 7 \<rparr>,
      \<lparr> rr_basin_id = Some (IdStr ''B3''), rr_name = None, rr_asi = - (12 / 10),
         rr_class = Some ''alert'', rr_date = Some 7 \<rparr>]"
  by (simp add: fs0_def top10_rows_def top10_row_def id_or_def truthy_id_def round3_examples)

lemma fs0_unfiltered:
  "asi_top10 lm (Some '''') (Inr fs0) =
     Inr (take (nat (max 0 (case lm of None \<Rightarrow> 10 | Some l \<Rightarrow> l)))
       [\<lparr> rr_basin_id = Some (IdStr ''B3''), rr_name = None, rr_asi = - (12 / 10),
           rr_class = Some ''alert'', rr_date = Some 7 \<rparr>,
        \<lparr> rr_basin_id = Some (IdStr ''B1''), rr_name = Some ''Ferlo'', rr_asi = 3 / 10,
           rr_class = Some ''normal'', rr_date = Some 7 \<rparr>])"
  by (simp add: asi_top10_def wanted_of_empty fs0_rows Let_def)


text \<open>
  C9. With the empty class filter the ranking is the first \<open>limit\<close> rows of a list that
  holds one row for every feature with a numeric composite score, whatever its class, and
  that is sorted ascending by the score the rows report. With limit 0 the ranking is the
  empty list, not an error, whatever the filter.
\<close>

theorem ranking_empty_filter:
  "(\<exists>all. asi_top10 (Some limit) (Some '''') (Inr fs) = Inr (take (nat (max 0 limit)) all)
        \<and> mset all = mset (top10_rows fs) \<and> sorted (map rr_asi all))
   \<and> set (top10_rows fs) = {top10_row f a | f a. f \<in> set fs \<and> p_asi f = Some a}
   \<and> length (top10_rows fs) = length (filter (\<lambda>f. p_asi f \<noteq> None) fs)
   \<and> (\<forall>classes. asi_top10 (Some 0) classes (Inr fs) = Inr [])"
proof (intro conjI allI)
  show "\<exists>all. asi_top10 (Some limit) (Some '''') (Inr fs) = Inr (take (nat (max 0 limit)) all)
        \<and> mset all = mset (top10_rows fs) \<and> sorted (map rr_asi all)"
    by (rule exI [of _ "sort_key rr_asi (top10_rows fs)"])
       (simp add: asi_top10_def wanted_of_empty Let_def)
  show "set (top10_rows fs) = {top10_row f a | f a. f \<in> set fs \<and> p_asi f = Some a}"
    by (rule set_top10_rows)
  show "length (top10_rows fs) = length (filter (\<lambda>f. p_asi f \<noteq> None) fs)"
    by (rule length_top10_rows)
  show "asi_top10 (Some 0) classes (Inr fs) = Inr []" for classes
    by (simp add: asi_top10_def Let_def)
qed

theorem ranking_empty_filter_witness:
  "asi_top10 (Some 5) (Some '''') (Inr fs0) =
     Inr [\<lparr> rr_basin_id = Some (IdStr ''B3''), rr_name = None, rr_asi = - (12 / 10),
             rr_class = Some ''alert'', rr_date = Some 7 \<rparr>,
          \<lparr> rr_basin_id = Some (IdStr ''B1''), rr_name = Some ''Ferlo'', rr_asi = 3 / 10,
             rr_class = Some ''normal'', rr_date = Some 7 \<rparr>]
   \<and> asi_top10 (Some 1) (Some '''') (Inr fs0) =
     Inr [\<lparr> rr_basin_id = Some (IdStr ''B3''), rr_name = None, rr_asi = - (12 / 10),
             rr_class = Some ''alert'', rr_date = Some 7 \<rparr>]
   \<and> asi_top10 (Some 0) (Some '''') (Inr fs0) = Inr []"
proof -
  from ranking_empty_filter [of 0 fs0, THEN conjunct2, THEN conjunct2, THEN conjunct2,
      THEN spec, of "Some ''''"]
  show ?thesis by (simp add: fs0_unfiltered)
qed



end
